theory Spec2Isabelle
  imports Complex_Main "HOL-Library.Sublist" "HOL-Library.AList"
begin

section \<open>The AWS resource monitor (Resource-Finder/main.py)\<close>

text \<open>
  The theory embeds the classification and scoring engine of
  \<^verbatim>\<open>src/Resource-Finder/main.py\<close>: the usage evaluators, the cost estimators, the
  advisor, the risk scorer, the loops that place descriptors in the New and Unused
  collections, and the cost totals of the report.

  Conventions of the embedding.
  \<^item> Python \<^verbatim>\<open>str\<close> is \<open>string\<close>; \<^verbatim>\<open>a in s\<close> on strings is \<open>sublist a s\<close>
    (a contiguous occurrence), \<^verbatim>\<open>s.startswith(p)\<close> is \<open>prefix p s\<close>.
  \<^item> Python \<^verbatim>\<open>int\<close> is \<open>int\<close>. Python \<^verbatim>\<open>float\<close> is \<open>real\<close>: the rounding of binary
    floating point, infinities and NaN are outside the model.
  \<^item> A \<^verbatim>\<open>dict\<close> is an association list with distinct keys in insertion order.
  \<^item> A raised exception is \<open>Inl e\<close> of a result \<open>error + 'a\<close>.
  \<^item> Functions of the Python library that turn text into numbers or numbers into text
    (\<^verbatim>\<open>float\<close>, \<^verbatim>\<open>re.search\<close>, \<^verbatim>\<open>datetime.fromisoformat\<close>, the \<^verbatim>\<open>:.2f\<close> format) are
    arguments of the functions that call them, so every theorem holds for whatever
    these library functions compute.
\<close>

subsection \<open>Python values\<close>

datatype error = IndexError | ValueError | AttributeError | KeyError | ClientError

type_synonym ('k, 'v) dict = "('k \<times> 'v) list"

definition then_do :: "error + 'a \<Rightarrow> ('a \<Rightarrow> error + 'b) \<Rightarrow> error + 'b" where
  \<comment> \<open>Sequencing of two statements, the first of which may raise.\<close>
  "then_do m f = (case m of Inl e \<Rightarrow> Inl e | Inr x \<Rightarrow> f x)"

definition dict_of :: "('k \<times> 'v) list \<Rightarrow> ('k, 'v) dict" where
  \<comment> \<open>\<^verbatim>\<open>{k: v for (k, v) in pairs}\<close>: a later pair overwrites the value of its key.\<close>
  "dict_of kvs = fold (\<lambda>(k, v) d. AList.update k v d) kvs []"

definition item :: "'a list \<Rightarrow> nat \<Rightarrow> error + 'a" where
  \<comment> \<open>\<^verbatim>\<open>xs[i]\<close> for a literal index \<open>i \<ge> 0\<close>.\<close>
  "item xs i = (if i < length xs then Inr (xs ! i) else Inl IndexError)"

function py_split_from :: "string \<Rightarrow> string \<Rightarrow> string \<Rightarrow> string list" where
  "py_split_from sep cur s =
     (if s = [] then [cur]
      else if sep \<noteq> [] \<and> prefix sep s
        then cur # py_split_from sep [] (drop (length sep) s)
      else py_split_from sep (cur @ [hd s]) (tl s))"
  by pat_completeness auto
termination
  by (relation "measure (\<lambda>(sep, cur, s). length s)") (auto simp: neq_Nil_conv)

declare py_split_from.simps [simp del]

definition py_split :: "string \<Rightarrow> string \<Rightarrow> error + string list" where
  \<comment> \<open>\<^verbatim>\<open>s.split(sep)\<close>: the pieces between the occurrences of \<open>sep\<close>, found left to
      right without overlap; an empty separator raises ValueError.\<close>
  "py_split sep s = (if sep = [] then Inl ValueError else Inr (py_split_from sep [] s))"

definition remove_char :: "char \<Rightarrow> string \<Rightarrow> string" where
  \<comment> \<open>\<^verbatim>\<open>s.replace(c, '')\<close> for a one-character \<open>c\<close>.\<close>
  "remove_char c s = filter (\<lambda>x. x \<noteq> c) s"

subsection \<open>The resource descriptor\<close>

text \<open>
  The dataclass \<^verbatim>\<open>ResourceInfo\<close> (lines 30-69), field by field. \<open>ResourceInfo_init\<close> is
  its constructor applied to the ten fields without a default.
\<close>

record ResourceInfo =
  resource_type :: string
  resource_id :: string
  resource_name :: string
  created_time :: string
  created_by :: string
  state :: string
  tags :: "(string, string) dict"
  usage_info :: string
  estimated_cost :: string
  region :: string
  vpc_id :: string
  subnet_id :: string
  instance_type :: string
  is_unused :: bool
  is_new :: bool
  additional_info :: string
  security_groups :: "string list"
  public_ip :: string
  private_ip :: string
  last_accessed :: string
  compliance_status :: "(string, bool) dict"
  cost_optimization_suggestions :: "string list"
  risk_level :: string
  environment :: string
  owner_email :: string
  department :: string
  project :: string
  backup_status :: string
  monitoring_enabled :: bool
  auto_scaling_enabled :: bool
  encryption_status :: string
  performance_metrics :: "(string, real) dict"
  associated_resources :: "string list"
  termination_protection :: bool
  data_transfer_cost :: string
  storage_optimization :: string

definition ResourceInfo_init ::
  "string \<Rightarrow> string \<Rightarrow> string \<Rightarrow> string \<Rightarrow> string \<Rightarrow> string \<Rightarrow> (string, string) dict
     \<Rightarrow> string \<Rightarrow> string \<Rightarrow> string \<Rightarrow> ResourceInfo" where
  "ResourceInfo_init rtype rid rname ctime cby st tgs usage cost reg =
     \<lparr> resource_type = rtype, resource_id = rid, resource_name = rname,
       created_time = ctime, created_by = cby, state = st, tags = tgs,
       usage_info = usage, estimated_cost = cost, region = reg,
       vpc_id = '''', subnet_id = '''', instance_type = '''',
       is_unused = False, is_new = False, additional_info = '''',
       security_groups = [], public_ip = '''', private_ip = '''', last_accessed = '''',
       compliance_status = [], cost_optimization_suggestions = [],
       risk_level = ''Low'', environment = '''', owner_email = '''', department = '''',
       project = '''', backup_status = '''', monitoring_enabled = False,
       auto_scaling_enabled = False, encryption_status = '''', performance_metrics = [],
       associated_resources = [], termination_protection = False,
       data_transfer_cost = '''', storage_optimization = '''' \<rparr>"

subsection \<open>Risk scoring (calculate_risk_level, lines 287-318)\<close>

definition risk_score :: "ResourceInfo \<Rightarrow> int" where
  \<comment> \<open>The value of \<^verbatim>\<open>risk_score\<close> when line 312 is reached: five guarded increments of a
      counter that starts at 0. An empty string and an empty dict are falsy.\<close>
  "risk_score r =
     (let s0 = 0;
          s1 = (if public_ip r \<noteq> [] \<and> public_ip r \<noteq> ''N/A'' then s0 + 3 else s0);
          s2 = (if sublist ''Encrypted: False'' (additional_info r) then s1 + 2 else s1);
          s3 = (if is_unused r then s2 + 2 else s2);
          s4 = (if environment r = ''Production'' \<and> sublist ''No backup'' (backup_status r)
                then s3 + 3 else s3);
          s5 = (if compliance_status r \<noteq> []
                then s4 + int (length (filter (\<lambda>(k, v). \<not> v) (compliance_status r)))
                else s4)
      in s5)"

definition risk_tier :: "int \<Rightarrow> string" where
  \<comment> \<open>Lines 312-318: the tier of a score.\<close>
  "risk_tier score =
     (if score \<ge> 6 then ''High'' else if score \<ge> 3 then ''Medium'' else ''Low'')"

definition calculate_risk_level :: "ResourceInfo \<Rightarrow> string" where
  "calculate_risk_level r = risk_tier (risk_score r)"

definition tier_rank :: "string \<Rightarrow> nat" where
  \<comment> \<open>The order Low < Medium < High of the three tiers.\<close>
  "tier_rank t = (if t = ''High'' then 2 else if t = ''Medium'' then 1 else 0)"

text \<open>The score as the specification words it: a sum of five independent terms.\<close>

definition has_public_ip :: "ResourceInfo \<Rightarrow> bool" where
  "has_public_ip r = (public_ip r \<noteq> '''' \<and> public_ip r \<noteq> ''N/A'')"

definition indicates_unencrypted :: "ResourceInfo \<Rightarrow> bool" where
  "indicates_unencrypted r = sublist ''Encrypted: False'' (additional_info r)"

definition production_without_backup :: "ResourceInfo \<Rightarrow> bool" where
  "production_without_backup r =
     (environment r = ''Production'' \<and> sublist ''No backup'' (backup_status r))"

definition failed_checks :: "ResourceInfo \<Rightarrow> (string \<times> bool) list" where
  "failed_checks r = filter (\<lambda>kv. snd kv = False) (compliance_status r)"

definition spec_risk_score :: "ResourceInfo \<Rightarrow> int" where
  "spec_risk_score r =
     (if has_public_ip r then 3 else 0) + (if indicates_unencrypted r then 2 else 0)
     + (if is_unused r then 2 else 0) + (if production_without_backup r then 3 else 0)
     + int (length (failed_checks r))"


subsection \<open>Library functions taken as arguments\<close>

text \<open>
  The functions of the Python library that convert between text and numbers. A theorem
  about a definition that takes \<open>L\<close> holds for every such library.
  \<^item> \<open>float_of s\<close>: \<^verbatim>\<open>float(s)\<close>, \<open>None\<close> when it raises ValueError.
  \<^item> \<open>fmt d x\<close>: the text of \<^verbatim>\<open>f"{x:.<d>f}"\<close>.
  \<^item> \<open>search_avg_cpu s\<close>: \<^verbatim>\<open>float(re.search(r'Avg CPU.*?: ([\d.]+)%', s).group(1))\<close>,
    which raises AttributeError when nothing matches and ValueError when the match is
    not a number.
  \<^item> \<open>fromisoformat s\<close>: \<^verbatim>\<open>datetime.fromisoformat(s)\<close> as a point on the time line
    (an integer count of microseconds), ValueError when the text is not a date.
  \<^item> \<open>strftime_ist t\<close>: \<^verbatim>\<open>t.astimezone(self.ist).strftime('%Y-%m-%d %H:%M:%S IST')\<close>.
\<close>

record python_library =
  float_of :: "string \<Rightarrow> real option"
  fmt :: "nat \<Rightarrow> real \<Rightarrow> string"
  search_avg_cpu :: "string \<Rightarrow> error + real"
  fromisoformat :: "string \<Rightarrow> error + int"
  strftime_ist :: "int \<Rightarrow> string"

function str_nat :: "nat \<Rightarrow> string" where
  "str_nat n =
     (if n < 10 then [''0123456789'' ! n]
      else str_nat (n div 10) @ [''0123456789'' ! (n mod 10)])"
  by pat_completeness auto
termination
  by (relation "measure id") auto

declare str_nat.simps [simp del]

definition str_int :: "int \<Rightarrow> string" where
  \<comment> \<open>\<^verbatim>\<open>str(i)\<close> of an integer, as an f-string prints it.\<close>
  "str_int i = (if i < 0 then CHR ''-'' # str_nat (nat (- i)) else str_nat (nat i))"

definition get_or :: "('k, 'v) dict \<Rightarrow> 'k \<Rightarrow> 'v \<Rightarrow> 'v" where
  \<comment> \<open>\<^verbatim>\<open>d.get(k, default)\<close>.\<close>
  "get_or d k dflt = (case map_of d k of None \<Rightarrow> dflt | Some v \<Rightarrow> v)"

definition or_default :: "'a option \<Rightarrow> 'a \<Rightarrow> 'a" where
  \<comment> \<open>\<^verbatim>\<open>d.get('Key', default)\<close> on a provider record whose key \<^verbatim>\<open>'Key'\<close> is optional.\<close>
  "or_default v dflt = (case v of None \<Rightarrow> dflt | Some x \<Rightarrow> x)"

definition key :: "'a option \<Rightarrow> error + 'a" where
  \<comment> \<open>\<^verbatim>\<open>d['Key']\<close> on a provider record whose key \<^verbatim>\<open>'Key'\<close> is optional.\<close>
  "key v = (case v of None \<Rightarrow> Inl KeyError | Some x \<Rightarrow> Inr x)"

fun keys_of_all :: "('a \<Rightarrow> 'b option) \<Rightarrow> 'a list \<Rightarrow> error + 'b list" where
  \<comment> \<open>The values \<^verbatim>\<open>d['Key'] for d in ds\<close>, read in order; the first missing key raises.\<close>
  "keys_of_all f [] = Inr []"
| "keys_of_all f (d # ds) =
     then_do (key (f d)) (\<lambda>x. then_do (keys_of_all f ds) (\<lambda>xs. Inr (x # xs)))"

subsection \<open>Usage evaluators\<close>

text \<open>
  A datapoint of the metrics provider carries the statistics that the call asked for;
  a statistic that is absent is \<open>None\<close>. A call of the provider returns its list of
  datapoints or raises.
\<close>

record datapoint =
  Average :: "real option"
  Maximum :: "real option"
  Sum :: "real option"

type_synonym metric_response = "error + datapoint list"

definition get_metric_sum :: "metric_response \<Rightarrow> real" where
  \<comment> \<open>Lines 1857-1879. The bare \<^verbatim>\<open>except\<close> turns every exception into 0.0.\<close>
  "get_metric_sum response =
     (case then_do response (\<lambda>dps.
             if dps \<noteq> [] then then_do (key (Sum (hd dps))) (\<lambda>s. Inr (s / (1024 * 1024)))
             else Inr 0)
      of Inl e \<Rightarrow> 0 | Inr x \<Rightarrow> x)"

definition py_max :: "real list \<Rightarrow> error + real" where
  \<comment> \<open>\<^verbatim>\<open>max(xs)\<close>: the first of the greatest elements; ValueError on an empty sequence.\<close>
  "py_max xs = (case xs of [] \<Rightarrow> Inl ValueError | x # rest \<Rightarrow> Inr (fold max rest x))"

definition check_ec2_usage ::
  "python_library \<Rightarrow> metric_response \<Rightarrow> metric_response \<Rightarrow> metric_response
     \<Rightarrow> string \<times> bool" where
  \<comment> \<open>Lines 1820-1855. The arguments are the provider's answers for CPUUtilization,
      NetworkIn and NetworkOut of the instance.\<close>
  "check_ec2_usage L response net_in_response net_out_response =
     (case then_do response (\<lambda>dps.
             if dps \<noteq> [] then
               then_do (keys_of_all Average dps) (\<lambda>avgs.
               then_do (keys_of_all Maximum dps) (\<lambda>maxs.
               then_do (py_max maxs) (\<lambda>max_cpu.
                 let avg_cpu = sum_list avgs / real (length dps);
                     net_in = get_metric_sum net_in_response;
                     net_out = get_metric_sum net_out_response;
                     usage_info = ''Avg CPU (7d): '' @ fmt L 2 avg_cpu
                       @ ''%, Max CPU: '' @ fmt L 2 max_cpu
                       @ ''%, Network In: '' @ fmt L 2 net_in
                       @ '' MB, Network Out: '' @ fmt L 2 net_out @ '' MB'';
                     is_unused = (avg_cpu < 2 \<and> max_cpu < 10 \<and> net_in < 100 \<and> net_out < 100)
                 in Inr (usage_info, is_unused))))
             else Inr (''No metrics available'', True))
      of Inl e \<Rightarrow> (''Metrics unavailable'', False) | Inr res \<Rightarrow> res)"

definition check_rds_usage :: "python_library \<Rightarrow> metric_response \<Rightarrow> string \<times> bool" where
  \<comment> \<open>Lines 559-585.\<close>
  "check_rds_usage L response =
     (case then_do response (\<lambda>dps.
             if dps \<noteq> [] then
               let avg_conn = or_default (Average (hd dps)) 0;
                   max_conn = or_default (Maximum (hd dps)) 0;
                   usage_info = ''Avg Connections (7d): '' @ fmt L 0 avg_conn
                     @ '', Max: '' @ fmt L 0 max_conn;
                   is_unused = (avg_conn < 1 \<and> max_conn < 5)
               in Inr (usage_info, is_unused)
             else Inr (''No connection metrics available'', True))
      of Inl e \<Rightarrow> (''Metrics unavailable'', False) | Inr res \<Rightarrow> res)"

text \<open>The quantities the specification names: an average and a count of megabytes.\<close>

definition mean :: "real list \<Rightarrow> real" where
  "mean xs = sum_list xs / real (length xs)"

definition megabytes :: "real \<Rightarrow> real" where
  "megabytes bytes = bytes / (1024 * 1024)"

subsection \<open>Cost estimators\<close>

definition cost_map :: "(string, real) dict" where
  \<comment> \<open>Lines 1954-1965.\<close>
  "cost_map =
     [(''t2.micro'', 8.5), (''t2.small'', 17), (''t2.medium'', 34), (''t2.large'', 68),
      (''t2.xlarge'', 136),
      (''t3.micro'', 7.6), (''t3.small'', 15.2), (''t3.medium'', 30.4), (''t3.large'', 60.8),
      (''t3.xlarge'', 121.6), (''t3.2xlarge'', 243.2),
      (''t3a.micro'', 6.8), (''t3a.small'', 13.6), (''t3a.medium'', 27.2),
      (''t3a.large'', 54.4),
      (''m5.large'', 88), (''m5.xlarge'', 176), (''m5.2xlarge'', 352), (''m5.4xlarge'', 704),
      (''m5a.large'', 79), (''m5a.xlarge'', 158), (''m5a.2xlarge'', 316),
      (''m6i.large'', 88), (''m6i.xlarge'', 176), (''m6i.2xlarge'', 352),
      (''c5.large'', 78), (''c5.xlarge'', 156), (''c5.2xlarge'', 312), (''c5.4xlarge'', 624),
      (''c5a.large'', 70), (''c5a.xlarge'', 140), (''c5a.2xlarge'', 280),
      (''r5.large'', 116), (''r5.xlarge'', 232), (''r5.2xlarge'', 464),
      (''r6i.large'', 117), (''r6i.xlarge'', 234), (''r6i.2xlarge'', 468)]"

definition ec2_monthly_cost :: "string \<Rightarrow> real" where
  \<comment> \<open>Line 1967: \<^verbatim>\<open>cost_map.get(instance_type, 100)\<close>.\<close>
  "ec2_monthly_cost itype = get_or cost_map itype 100"

definition ec2_cost_text :: "python_library \<Rightarrow> real \<Rightarrow> string" where
  \<comment> \<open>Lines 1968-1971: the hourly, daily and monthly amounts as text.\<close>
  "ec2_cost_text L monthly_cost =
     (let daily_cost = monthly_cost / 30;
          hourly_cost = monthly_cost / 720
      in ''$'' @ fmt L 3 hourly_cost @ ''/hr, $'' @ fmt L 2 daily_cost
           @ ''/day, $'' @ fmt L 2 monthly_cost @ ''/month'')"

definition estimate_ec2_cost :: "python_library \<Rightarrow> string \<Rightarrow> string" where
  \<comment> \<open>Lines 1950-1973. No statement of the \<^verbatim>\<open>try\<close> block raises on a string argument
      (a lookup with a default, two divisions by a constant, a format), so the handler
      that returns \<^verbatim>\<open>"Cost estimation unavailable"\<close> has no branch here.\<close>
  "estimate_ec2_cost L itype = ec2_cost_text L (ec2_monthly_cost itype)"

definition base_costs :: "(string, int) dict" where
  \<comment> \<open>Lines 590-599.\<close>
  "base_costs =
     [(''db.t3.micro'', 15), (''db.t3.small'', 30), (''db.t3.medium'', 60),
      (''db.t3.large'', 120), (''db.m5.large'', 200), (''db.m5.xlarge'', 400),
      (''db.r5.large'', 250), (''db.r5.xlarge'', 500)]"

definition rds_cost_text :: "python_library \<Rightarrow> int \<Rightarrow> int \<Rightarrow> string" where
  \<comment> \<open>Lines 605-607.\<close>
  "rds_cost_text L monthly_cost storage_cost =
     (let total_monthly = monthly_cost + storage_cost
      in ''$'' @ fmt L 2 (real_of_int total_monthly) @ ''/month (instance: $''
           @ str_int monthly_cost @ '', storage: ~$'' @ str_int storage_cost @ '')'')"

definition estimate_rds_cost :: "python_library \<Rightarrow> string \<Rightarrow> string \<Rightarrow> string" where
  \<comment> \<open>Lines 587-607. The engine is not read.\<close>
  "estimate_rds_cost L instance_class engine =
     (let monthly_cost = get_or base_costs instance_class 150;
          storage_cost = 20
      in rds_cost_text L monthly_cost storage_cost)"

definition estimate_lb_cost :: "string \<Rightarrow> string" where
  \<comment> \<open>Lines 1975-1986.\<close>
  "estimate_lb_cost lb_type =
     (if lb_type = ''classic'' then ''$18/month + $0.008/GB data''
      else if lb_type = ''application'' then ''$16.20/month + $0.008/LCU''
      else if lb_type = ''network'' then ''$16.20/month + $0.006/NLCU''
      else if lb_type = ''gateway'' then ''$10/month + $0.004/GLCU''
      else ''Cost estimation unavailable'')"

definition ebs_costs :: "(string, real) dict" where
  \<comment> \<open>The table \<^verbatim>\<open>costs\<close> of lines 1990-1998.\<close>
  "ebs_costs =
     [(''gp2'', 0.10), (''gp3'', 0.08), (''io1'', 0.125), (''io2'', 0.125), (''st1'', 0.045),
      (''sc1'', 0.025), (''standard'', 0.05)]"

definition estimate_ebs_cost :: "python_library \<Rightarrow> int \<Rightarrow> string \<Rightarrow> string" where
  \<comment> \<open>Lines 1988-2004. For a volume that is not of type io1 or io2 this text is the
      estimated cost of its descriptor (lines 1083-1098).\<close>
  "estimate_ebs_cost L size_gb volume_type =
     (let cost_per_gb = get_or ebs_costs volume_type 0.10;
          monthly_cost = real_of_int size_gb * cost_per_gb;
          daily_cost = monthly_cost / 30
      in ''$'' @ fmt L 2 daily_cost @ ''/day, $'' @ fmt L 2 monthly_cost @ ''/month'')"

definition estimate_lambda_cost :: "python_library \<Rightarrow> int \<Rightarrow> int \<Rightarrow> string" where
  \<comment> \<open>Lines 900-917.\<close>
  "estimate_lambda_cost L memory_mb timeout_seconds =
     (let price_per_gb_second = 0.0000166667;
          price_per_request = 0.0000002;
          avg_execution_time = real_of_int timeout_seconds / 2;
          gb_seconds = (real_of_int memory_mb / 1024) * avg_execution_time;
          monthly_invocations = 1000;
          compute_cost = gb_seconds * monthly_invocations * price_per_gb_second;
          request_cost = monthly_invocations * price_per_request;
          total = compute_cost + request_cost
      in ''$'' @ fmt L 4 total @ ''/month (est. 1K invocations)'')"


subsection \<open>Optimization advisor\<close>

definition savings_reminder :: "ResourceInfo \<Rightarrow> string" where
  \<comment> \<open>Line 280: \<^verbatim>\<open>f"Resource unused - potential savings: {resource.estimated_cost}"\<close>.\<close>
  "savings_reminder resource =
     ''Resource unused - potential savings: '' @ estimated_cost resource"

definition tagging_suggestion :: string where
  "tagging_suggestion = ''Add comprehensive tagging for better cost allocation''"

definition type_specific_suggestions :: "python_library \<Rightarrow> ResourceInfo \<Rightarrow> error + string list" where
  \<comment> \<open>Lines 250-276: the \<^verbatim>\<open>if\<close>/\<^verbatim>\<open>elif\<close> chain on the resource type.\<close>
  "type_specific_suggestions L resource =
     (if resource_type resource = ''EC2 Instance'' then
        then_do
          (if sublist ''Avg CPU'' (usage_info resource) then
             then_do (search_avg_cpu L (usage_info resource)) (\<lambda>avg_cpu.
               Inr (if avg_cpu < 5
                      then [''Consider downsizing instance or using Spot/Savings Plans'']
                    else if avg_cpu < 20
                      then [''Instance appears underutilized - review sizing'']
                    else []))
           else Inr [])
          (\<lambda>suggestions. Inr (suggestions
             @ (if \<exists>p \<in> set [''t2'', ''m3'', ''m4'', ''c3'', ''c4'']. prefix p (instance_type resource)
                then [''Migrate to newer generation instances for better price/performance'']
                else [])
             @ (if environment resource = ''Production'' \<and> state resource = ''running''
                then [''Consider Reserved Instances or Savings Plans for production workloads'']
                else [])))
      else if resource_type resource = ''EBS Volume'' then
        Inr ((if sublist ''gp2'' (usage_info resource)
              then [''Convert gp2 volumes to gp3 for 20% cost savings''] else [])
           @ (if is_unused resource
              then [''Create snapshot and delete unused volume''] else []))
      else if sublist ''Load Balancer'' (resource_type resource) then
        Inr (if is_unused resource
             then [''Delete unused load balancer to save $16-20/month''] else [])
      else Inr [])"

definition get_cost_optimization_suggestions ::
  "python_library \<Rightarrow> ResourceInfo \<Rightarrow> error + string list" where
  \<comment> \<open>Lines 246-285: the type-specific rules, then the two general ones.\<close>
  "get_cost_optimization_suggestions L resource =
     then_do (type_specific_suggestions L resource) (\<lambda>suggestions.
       Inr (suggestions
         @ (if is_unused resource then [savings_reminder resource] else [])
         @ (if tags resource = [] \<or> length (tags resource) < 3
            then [tagging_suggestion] else [])))"

record ebs_volume =
  VolumeId :: string
  VolumeType :: string
  Size :: int
  Iops :: "int option"
  Encrypted :: "bool option"
  vol_State :: string
  Attachments :: "string list"  \<comment> \<open>each attachment by the id of its instance\<close>

definition is_attached :: "ebs_volume \<Rightarrow> bool" where
  \<comment> \<open>Line 1065.\<close>
  "is_attached volume = (length (Attachments volume) > 0)"

definition get_ebs_optimization_suggestions :: "ebs_volume \<Rightarrow> bool \<Rightarrow> string list" where
  \<comment> \<open>Lines 1147-1171. \<^verbatim>\<open>not volume.get('Encrypted')\<close> holds for an absent key as for
      \<^verbatim>\<open>False\<close>.\<close>
  "get_ebs_optimization_suggestions volume attached =
     (if VolumeType volume = ''gp2''
      then [''Migrate from gp2 to gp3 for 20% cost savings and better performance'']
      else [])
     @ (if \<not> attached
        then [''Create snapshot and delete unattached volume to save costs''] else [])
     @ (if VolumeType volume \<in> set [''io1'', ''io2''] \<and> or_default (Iops volume) 0 > 10000
        then [''Review IOPS requirements - may be over-provisioned''] else [])
     @ (if Size volume > 500
        then [''Review large volume usage - consider archiving old data''] else [])
     @ (if \<not> or_default (Encrypted volume) False
        then [''Enable encryption for compliance and security''] else [])"

definition ebs_suggestions :: "ebs_volume \<Rightarrow> string list" where
  \<comment> \<open>Line 1113: the list stored in the volume's descriptor.\<close>
  "ebs_suggestions volume = get_ebs_optimization_suggestions volume (is_attached volume)"

definition lambda_suggestions :: "bool \<Rightarrow> int \<Rightarrow> string list" where
  \<comment> \<open>Lines 856-860: the list of a function's descriptor, which starts empty.\<close>
  "lambda_suggestions unused memory =
     (if unused then [''Delete unused Lambda function''] else [])
     @ (if memory > 1024
        then [''Review memory allocation - may be over-provisioned''] else [])"

definition lower_char :: "char \<Rightarrow> char" where
  \<comment> \<open>\<^verbatim>\<open>str.lower\<close> on an ASCII letter; other characters are left as they are.\<close>
  "lower_char c =
     (let n = of_char c :: nat in if 65 \<le> n \<and> n \<le> 90 then char_of (n + 32) else c)"

subsubsection \<open>The advisors of the other families\<close>

record db_instance =
  DBInstanceIdentifier :: string
  DBInstanceClass :: string
  MultiAZ :: "bool option"
  BackupRetentionPeriod :: "int option"

definition get_rds_optimization_suggestions :: "db_instance \<Rightarrow> string list" where
  \<comment> \<open>Lines 609-625.\<close>
  "get_rds_optimization_suggestions db =
     (if \<exists>p \<in> set [''db.t2'', ''db.m3'', ''db.m4'']. prefix p (DBInstanceClass db)
      then [''Upgrade to newer generation instance class for better performance/cost'']
      else [])
     @ (if or_default (MultiAZ db) False
           \<and> \<not> sublist ''prod'' (map lower_char (DBInstanceIdentifier db))
        then [''Consider disabling Multi-AZ for non-production to save 50% cost'']
        else [])
     @ (if or_default (BackupRetentionPeriod db) 0 > 7
        then [''Review backup retention period - consider using snapshots for long-term backup'']
        else [])"

definition get_s3_optimization_suggestions ::
  "error + unit \<Rightarrow> string \<Rightarrow> string \<Rightarrow> bool \<Rightarrow> string list" where
  \<comment> \<open>Lines 785-805. The first argument is the outcome of the provider call
      \<^verbatim>\<open>get_bucket_lifecycle_configuration\<close>, whose answer is not read.\<close>
  "get_s3_optimization_suggestions lifecycle versioning encryption unused =
     (if unused then [''Delete empty bucket or archive old data to Glacier''] else [])
     @ (if versioning = ''Enabled''
        then [''Configure lifecycle policies to delete old versions''] else [])
     @ (if encryption = ''Not Enabled''
        then [''Enable default encryption for security compliance''] else [])
     @ (case lifecycle of
          Inr u \<Rightarrow> []
        | Inl e \<Rightarrow> [''Add lifecycle policies to move old data to cheaper storage classes''])"

definition classic_lb_suggestions :: "bool \<Rightarrow> string list" where
  \<comment> \<open>Lines 963-964.\<close>
  "classic_lb_suggestions unused =
     (if unused then [''Migrate to ALB/NLB or delete if unused''] else [])"

definition v2_lb_suggestions :: "string \<Rightarrow> bool \<Rightarrow> int \<Rightarrow> string list" where
  \<comment> \<open>Lines 1033-1036, for a load balancer of type \<open>lb_type\<close>.\<close>
  "v2_lb_suggestions lb_type unused listener_count =
     (if unused then [''Delete unused '' @ lb_type @ '' load balancer''] else [])
     @ (if lb_type = ''application'' \<and> listener_count > 5
        then [''Consider consolidating listeners to reduce complexity''] else [])"

definition eip_suggestions :: "bool \<Rightarrow> string list" where
  \<comment> \<open>Lines 1230-1231.\<close>
  "eip_suggestions associated =
     (if \<not> associated
      then [''Release unassociated Elastic IP to save $3.60/month''] else [])"

subsection \<open>Environment detection (lines 191-210)\<close>

definition join :: "string \<Rightarrow> string list \<Rightarrow> string" where
  \<comment> \<open>\<^verbatim>\<open>sep.join(xs)\<close>.\<close>
  "join sep xs = (case xs of [] \<Rightarrow> [] | x # rest \<Rightarrow> x @ concat (map (\<lambda>y. sep @ y) rest))"

definition env_keywords :: "(string \<times> string list) list" where
  \<comment> \<open>The table of line 193, each key already capitalised as line 208 returns it.\<close>
  "env_keywords =
     [(''Production'', [''prod'', ''production'', ''prd'']),
      (''Staging'', [''staging'', ''stage'', ''stg'']),
      (''Development'', [''dev'', ''development'', ''develop'']),
      (''Testing'', [''test'', ''testing'', ''qa'']),
      (''Demo'', [''demo'', ''poc'', ''sandbox''])]"

definition detect_environment_from_tags :: "(string, string) dict \<Rightarrow> string" where
  "detect_environment_from_tags tgs =
     (let tag_values = join '' '' (map (\<lambda>kv. map lower_char (snd kv)) tgs);
          tag_keys = join '' '' (map (\<lambda>kv. map lower_char (fst kv)) tgs);
          combined = tag_values @ '' '' @ tag_keys
      in case filter (\<lambda>(env, keywords). \<exists>keyword \<in> set keywords. sublist keyword combined)
                env_keywords
         of [] \<Rightarrow> ''Unknown'' | (env, keywords) # rest \<Rightarrow> env)"

subsection \<open>Placing descriptors in the two collections\<close>

type_synonym collections = "ResourceInfo list \<times> ResourceInfo list"

definition place_resource :: "ResourceInfo \<Rightarrow> collections \<Rightarrow> collections" where
  \<comment> \<open>The last four lines of a loop body (411-414 for compute instances, and the same
      lines of the database, bucket, function, load balancer and volume loops). The
      variables \<^verbatim>\<open>is_new\<close> and \<^verbatim>\<open>is_unused\<close> they test are the ones stored in the
      descriptor. The pair is \<^verbatim>\<open>(new_resources, unused_resources)\<close>.\<close>
  "place_resource resource acc =
     (let new_resources = (if is_new resource then fst acc @ [resource] else fst acc);
          unused_resources = (if is_unused resource \<and> \<not> is_new resource
                              then snd acc @ [resource] else snd acc)
      in (new_resources, unused_resources))"

datatype 'a outcome = Skipped | Raised error | Built 'a

fun family_loop :: "('a \<Rightarrow> ResourceInfo outcome) \<Rightarrow> 'a list \<Rightarrow> collections \<Rightarrow> collections" where
  \<comment> \<open>A \<^verbatim>\<open>for\<close> loop inside \<^verbatim>\<open>try: ... except Exception: log\<close>, followed by the return of
      the two lists: an exception in the body ends the loop and the lists are returned
      as they are; \<^verbatim>\<open>continue\<close> goes to the next item.\<close>
  "family_loop body [] acc = acc"
| "family_loop body (x # xs) acc =
     (case body x of
        Skipped \<Rightarrow> family_loop body xs acc
      | Raised e \<Rightarrow> acc
      | Built resource \<Rightarrow> family_loop body xs (place_resource resource acc))"

fun built :: "('a \<Rightarrow> ResourceInfo outcome) \<Rightarrow> 'a list \<Rightarrow> ResourceInfo list" where
  \<comment> \<open>The descriptors that a run of the loop produces.\<close>
  "built body [] = []"
| "built body (x # xs) =
     (case body x of
        Skipped \<Rightarrow> built body xs
      | Raised e \<Rightarrow> []
      | Built resource \<Rightarrow> resource # built body xs)"

definition outcome_of :: "error + 'a \<Rightarrow> 'a outcome" where
  "outcome_of m = (case m of Inl e \<Rightarrow> Raised e | Inr x \<Rightarrow> Built x)"

subsubsection \<open>Compute instances (lines 320-419)\<close>

definition ec2_body :: "python_library \<Rightarrow> string \<times> (error + ResourceInfo) \<Rightarrow> ResourceInfo outcome" where
  \<comment> \<open>An item is the state name of an instance with the descriptor that lines 333-403
      construct for it (or the exception that a collaborator raises on the way). Lines
      405-409 add the suggestions and then the risk level.\<close>
  "ec2_body L it =
     (if fst it = ''terminated'' then Skipped
      else outcome_of
        (then_do (snd it) (\<lambda>resource.
         then_do (get_cost_optimization_suggestions L resource) (\<lambda>suggestions.
           let resource = resource\<lparr>cost_optimization_suggestions := suggestions\<rparr>;
               resource = resource\<lparr>risk_level := calculate_risk_level resource\<rparr>
           in Inr resource))))"

definition get_all_ec2_instances ::
  "python_library \<Rightarrow> (string \<times> (error + ResourceInfo)) list \<Rightarrow> collections" where
  "get_all_ec2_instances L instances = family_loop (ec2_body L) instances ([], [])"

subsubsection \<open>Functions (lines 807-898)\<close>

fun commas_rev :: "string \<Rightarrow> string" where
  \<comment> \<open>A comma after every third digit, on the digits from the least significant.\<close>
  "commas_rev (a # b # c # d # rest) = a # b # c # CHR '','' # commas_rev (d # rest)"
| "commas_rev ds = ds"

definition str_int_commas :: "int \<Rightarrow> string" where
  \<comment> \<open>\<^verbatim>\<open>f"{i:,}"\<close>.\<close>
  "str_int_commas i =
     (if i < 0 then CHR ''-'' # rev (commas_rev (rev (str_nat (nat (- i)))))
      else rev (commas_rev (rev (str_nat (nat i)))))"

definition py_int :: "real \<Rightarrow> int" where
  \<comment> \<open>\<^verbatim>\<open>int(x)\<close> of a float: truncation towards zero.\<close>
  "py_int x = (if x < 0 then \<lceil>x\<rceil> else \<lfloor>x\<rfloor>)"

definition check_lambda_usage :: "metric_response \<Rightarrow> string \<times> bool" where
  \<comment> \<open>Lines 874-898.\<close>
  "check_lambda_usage response =
     (case then_do response (\<lambda>dps.
             then_do (if dps \<noteq> [] then then_do (key (Sum (hd dps))) (\<lambda>s. Inr (py_int s))
                      else Inr 0) (\<lambda>invocations.
               Inr (''Invocations (30d): '' @ str_int_commas invocations, invocations = 0)))
      of Inl e \<Rightarrow> (''Metrics unavailable'', False) | Inr res \<Rightarrow> res)"

definition replace_char :: "char \<Rightarrow> string \<Rightarrow> string \<Rightarrow> string" where
  \<comment> \<open>\<^verbatim>\<open>s.replace(c, t)\<close> for a one-character \<open>c\<close>.\<close>
  "replace_char c t s = concat (map (\<lambda>x. if x = c then t else [x]) s)"

record lambda_function =
  FunctionName :: string
  LastModified :: string
  MemorySize :: "int option"
  Timeout :: "int option"
  fn_State :: "string option"
  Runtime :: "string option"

text \<open>
  An item of the function loop: an entry of \<^verbatim>\<open>list_functions\<close> with the answers of the
  two provider calls made for it, \<^verbatim>\<open>list_tags\<close> (whose \<^verbatim>\<open>'Tags'\<close> key is optional) and the
  Invocations metric.
\<close>

record lambda_item =
  fn :: lambda_function
  list_tags :: "error + (string, string) dict option"
  invocations :: metric_response

definition lambda_body ::
  "python_library \<Rightarrow> int \<Rightarrow> string \<Rightarrow> lambda_item \<Rightarrow> ResourceInfo outcome" where
  \<comment> \<open>Lines 816-862. \<open>cutoff_time\<close> is \<^verbatim>\<open>self.cutoff_time\<close>, 24 hours before the start
      of the run (line 123).\<close>
  "lambda_body L cutoff_time aws_region it =
     outcome_of
       (let func_name = FunctionName (fn it) in
        then_do (fromisoformat L (replace_char CHR ''Z'' ''+00:00'' (LastModified (fn it))))
          (\<lambda>last_modified.
        let new = (last_modified \<ge> cutoff_time) in
        then_do (list_tags it) (\<lambda>tags_response.
        let tgs = or_default tags_response [];
            usage = check_lambda_usage (invocations it);
            env = detect_environment_from_tags tgs;
            memory = or_default (MemorySize (fn it)) 128;
            timeout = or_default (Timeout (fn it)) 3;
            cost = estimate_lambda_cost L memory timeout;
            resource = (ResourceInfo_init ''Lambda Function'' func_name func_name
                (strftime_ist L last_modified) (get_or tgs ''CreatedBy'' ''Unknown'')
                (or_default (fn_State (fn it)) ''Active'') tgs (fst usage) cost aws_region)
              \<lparr> is_unused := snd usage, is_new := new,
                additional_info := ''Runtime: '' @ or_default (Runtime (fn it)) ''N/A''
                  @ '', Memory: '' @ str_int memory @ ''MB, Timeout: '' @ str_int timeout
                  @ ''s'',
                environment := env, owner_email := get_or tgs ''Owner'' [],
                department := get_or tgs ''Department'' [],
                project := get_or tgs ''Project'' [] \<rparr>;
            resource = resource\<lparr>cost_optimization_suggestions :=
                cost_optimization_suggestions resource @ lambda_suggestions (snd usage) memory\<rparr>;
            resource = resource\<lparr>risk_level := calculate_risk_level resource\<rparr>
        in Inr resource)))"

definition get_all_lambda_functions ::
  "python_library \<Rightarrow> int \<Rightarrow> string \<Rightarrow> lambda_item list \<Rightarrow> collections" where
  "get_all_lambda_functions L cutoff_time aws_region functions =
     family_loop (lambda_body L cutoff_time aws_region) functions ([], [])"

subsubsection \<open>Elastic IPs (lines 1173-1243)\<close>

record eip_address =
  AllocationId :: "string option"
  InstanceId :: "string option"
  NetworkInterfaceId :: "string option"
  PublicIp :: "string option"
  Domain :: "string option"
  eip_Tags :: "(string \<times> string) list"

definition eip_is_associated :: "eip_address \<Rightarrow> bool" where
  \<comment> \<open>Line 1187.\<close>
  "eip_is_associated eip = (InstanceId eip \<noteq> None \<or> NetworkInterfaceId eip \<noteq> None)"

definition eip_is_new :: "int \<Rightarrow> int option \<Rightarrow> bool" where
  \<comment> \<open>Line 1184: \<^verbatim>\<open>allocation_time and allocation_time >= self.cutoff_time\<close>. Without an
      allocation time the value is \<^verbatim>\<open>None\<close>, which both tests of lines 1235-1237 read as
      false.\<close>
  "eip_is_new cutoff_time allocation_time =
     (case allocation_time of None \<Rightarrow> False | Some t \<Rightarrow> t \<ge> cutoff_time)"

definition eip_resource ::
  "python_library \<Rightarrow> int \<Rightarrow> string \<Rightarrow> string \<Rightarrow> eip_address \<Rightarrow> int option \<Rightarrow> ResourceInfo" where
  \<comment> \<open>Lines 1183-1233, for an address whose \<^verbatim>\<open>'AllocationId'\<close> is \<open>aid\<close>.\<close>
  "eip_resource L cutoff_time aws_region aid eip allocation_time =
     (let new = eip_is_new cutoff_time allocation_time;
          associated = eip_is_associated eip;
          association_info =
            (case InstanceId eip of
               Some i \<Rightarrow> ''Associated with EC2: '' @ i
             | None \<Rightarrow> (case NetworkInterfaceId eip of
                          Some n \<Rightarrow> ''Associated with ENI: '' @ n
                        | None \<Rightarrow> ''Not associated''));
          associated_resource =
            (case InstanceId eip of Some i \<Rightarrow> Some i | None \<Rightarrow> NetworkInterfaceId eip);
          tgs = dict_of (eip_Tags eip);
          env = detect_environment_from_tags tgs;
          monthly_cost = (if associated then 0 else 3.60);
          resource = (ResourceInfo_init ''Elastic IP'' aid (or_default (PublicIp eip) ''N/A'')
              (case allocation_time of Some t \<Rightarrow> strftime_ist L t | None \<Rightarrow> ''Unknown'')
              (get_or tgs ''CreatedBy'' ''Unknown'') ''allocated'' tgs association_info
              (''$'' @ fmt L 2 monthly_cost @ ''/month'') aws_region)
            \<lparr> is_unused := \<not> associated, is_new := new,
              additional_info := ''Domain: '' @ or_default (Domain eip) ''vpc'' @ '', IP: ''
                @ or_default (PublicIp eip) ''N/A'',
              public_ip := or_default (PublicIp eip) ''N/A'',
              associated_resources :=
                (case associated_resource of
                   None \<Rightarrow> [] | Some a \<Rightarrow> (if a = [] then [] else [a])),
              environment := env, owner_email := get_or tgs ''Owner'' [],
              department := get_or tgs ''Department'' [],
              project := get_or tgs ''Project'' [] \<rparr>;
          resource = resource\<lparr>cost_optimization_suggestions :=
              cost_optimization_suggestions resource @ eip_suggestions associated\<rparr>;
          resource = resource\<lparr>risk_level := calculate_risk_level resource\<rparr>
      in resource)"

definition eip_step ::
  "python_library \<Rightarrow> int \<Rightarrow> string \<Rightarrow> eip_address \<times> int option \<Rightarrow> collections \<Rightarrow> collections" where
  \<comment> \<open>One pass of the loop of line 1181. An item is an address with the answer of
      \<^verbatim>\<open>get_resource_allocation_time\<close> for it; an address without \<^verbatim>\<open>'AllocationId'\<close> is
      passed over. Lines 1235-1238 test \<^verbatim>\<open>not is_associated\<close> where the other loops test
      \<^verbatim>\<open>is_unused\<close>.\<close>
  "eip_step L cutoff_time aws_region it acc =
     (case AllocationId (fst it) of
        None \<Rightarrow> acc
      | Some aid \<Rightarrow>
          let resource = eip_resource L cutoff_time aws_region aid (fst it) (snd it);
              new = eip_is_new cutoff_time (snd it);
              associated = eip_is_associated (fst it);
              new_resources = (if new then fst acc @ [resource] else fst acc);
              unused_resources = (if \<not> associated \<and> \<not> new
                                  then snd acc @ [resource] else snd acc)
          in (new_resources, unused_resources))"

definition get_all_elastic_ips ::
  "python_library \<Rightarrow> int \<Rightarrow> string \<Rightarrow> (eip_address \<times> int option) list \<Rightarrow> collections" where
  "get_all_elastic_ips L cutoff_time aws_region addresses =
     fold (eip_step L cutoff_time aws_region) addresses ([], [])"

definition eip_built ::
  "python_library \<Rightarrow> int \<Rightarrow> string \<Rightarrow> (eip_address \<times> int option) list \<Rightarrow> ResourceInfo list" where
  \<comment> \<open>The descriptors that the loop produces.\<close>
  "eip_built L cutoff_time aws_region addresses =
     concat (map (\<lambda>it. case AllocationId (fst it) of
                          None \<Rightarrow> []
                        | Some aid \<Rightarrow> [eip_resource L cutoff_time aws_region aid (fst it) (snd it)])
                 addresses)"

definition classified :: "collections \<Rightarrow> bool" where
  \<comment> \<open>What the specification asks of a pair of collections: the first holds new
      descriptors only, the second holds descriptors that are unused and not new.\<close>
  "classified res =
     (list_all is_new (fst res) \<and> list_all (\<lambda>r. is_unused r \<and> \<not> is_new r) (snd res))"

subsubsection \<open>The whole scan (run, lines 2014-2033)\<close>

definition run_collect :: "collections list \<Rightarrow> collections" where
  \<comment> \<open>The results of the fetchers, in the order of line 2018, are appended to the two
      lists of the run. No fetcher raises: each catches the exceptions of its own body.\<close>
  "run_collect results =
     fold (\<lambda>res acc. (fst acc @ fst res, snd acc @ snd res)) results ([], [])"

subsection \<open>Cost totals of the report\<close>

definition cost_str :: "string \<Rightarrow> error + string" where
  \<comment> \<open>Lines 1364, 1372 and 1442:
      \<^verbatim>\<open>r.estimated_cost.split('$')[1].split('/month')[0].split(' ')[0]\<close>.\<close>
  "cost_str c =
     then_do (py_split ''$'' c) (\<lambda>a. then_do (item a 1) (\<lambda>a1.
     then_do (py_split ''/month'' a1) (\<lambda>b. then_do (item b 0) (\<lambda>b0.
     then_do (py_split '' '' b0) (\<lambda>d. item d 0)))))"

definition add_monthly :: "python_library \<Rightarrow> real \<Rightarrow> ResourceInfo \<Rightarrow> error + real" where
  \<comment> \<open>The body of the \<^verbatim>\<open>try\<close> block (lines 1363-1365): the new value of the total, or
      the exception raised.\<close>
  "add_monthly L tot r =
     (if sublist ''$'' (estimated_cost r) \<and> sublist ''month'' (estimated_cost r) then
        then_do (cost_str (estimated_cost r)) (\<lambda>s.
          case float_of L (remove_char CHR '','' s) of
            None \<Rightarrow> Inl ValueError
          | Some v \<Rightarrow> Inr (tot + v))
      else Inr tot)"

fun sum_monthly :: "python_library \<Rightarrow> real \<Rightarrow> ResourceInfo list \<Rightarrow> real" where
  \<comment> \<open>The loop \<^verbatim>\<open>for r in rs: try: ... except: pass\<close> (lines 1361-1367): an exception of
      the body leaves the total as it was and the loop goes on.\<close>
  "sum_monthly L tot [] = tot"
| "sum_monthly L tot (r # rs) =
     sum_monthly L (case add_monthly L tot r of Inl e \<Rightarrow> tot | Inr t \<Rightarrow> t) rs"

definition sheets_total_monthly_savings :: "python_library \<Rightarrow> ResourceInfo list \<Rightarrow> real" where
  \<comment> \<open>Lines 1358-1367 of send_to_google_sheets.\<close>
  "sheets_total_monthly_savings L unused_resources = sum_monthly L 0 unused_resources"

definition sheets_total_monthly_cost ::
  "python_library \<Rightarrow> ResourceInfo list \<Rightarrow> ResourceInfo list \<Rightarrow> real" where
  \<comment> \<open>Lines 1359-1375 of send_to_google_sheets.\<close>
  "sheets_total_monthly_cost L new_resources unused_resources =
     sum_monthly L 0 (new_resources @ unused_resources)"

definition slack_total_monthly_savings :: "python_library \<Rightarrow> ResourceInfo list \<Rightarrow> real" where
  \<comment> \<open>Lines 1437-1445 of send_slack_notification.\<close>
  "slack_total_monthly_savings L unused_resources = sum_monthly L 0 unused_resources"

fun before :: "string \<Rightarrow> string \<Rightarrow> string" where
  \<comment> \<open>The text in front of the first occurrence of \<open>sep\<close>, all of it when there is none:
      the first piece of \<^verbatim>\<open>s.split(sep)\<close> (lemma \<open>first_piece\<close>).\<close>
  "before sep [] = []"
| "before sep (c # cs) = (if prefix sep (c # cs) then [] else c # before sep cs)"

subsection \<open>A finite part of the library, for the examples\<close>

text \<open>
  The values of the library functions on the texts and numbers that the examples below
  use, as Python computes them. Outside of these, \<open>example_library\<close> raises or prints a
  question mark. The texts outside of these that an example reads are \<^verbatim>\<open>0.122/hr\<close> and
  \<^verbatim>\<open>0.33/day\<close>, on which \<^verbatim>\<open>float\<close> raises ValueError in Python too.
\<close>

definition example_library :: python_library where
  "example_library =
     \<lparr> float_of = (\<lambda>s. if s = ''170.00'' then Some 170
                      else if s = ''18'' then Some 18
                      else if s = ''3.60'' then Some 3.6
                      else if s = ''88.00'' then Some 88
                      else if s = ''10.00'' then Some 10
                      else None),
       fmt = (\<lambda>d x. if d = 2 \<and> x = 170 then ''170.00''
                    else if d = 2 \<and> x = 100 then ''100.00''
                    else if d = 3 \<and> x = 100 / 720 then ''0.139''
                    else if d = 2 \<and> x = 100 / 30 then ''3.33''
                    else if d = 2 \<and> x = 3.6 then ''3.60''
                    else if d = 2 \<and> x = 0 then ''0.00''
                    else if d = 4 \<and> x = 0.00332500625 then ''0.0033''
                    else if d = 3 \<and> x = 88 / 720 then ''0.122''
                    else if d = 2 \<and> x = 88 / 30 then ''2.93''
                    else if d = 2 \<and> x = 88 then ''88.00''
                    else if d = 2 \<and> x = 10 / 30 then ''0.33''
                    else if d = 2 \<and> x = 10 then ''10.00''
                    else ''?''),
       search_avg_cpu = (\<lambda>s. if prefix ''Avg CPU (7d): 1.00%'' s then Inr 1
                            else Inl AttributeError),
       fromisoformat = (\<lambda>s. if s = ''2024-01-02T06:00:00+00:00'' then Inr 1704175200000000
                           else if s = ''2023-06-01T00:00:00+00:00'' then Inr 1685577600000000
                           else Inl ValueError),
       strftime_ist = (\<lambda>t. if t = 1704175200000000 then ''2024-01-02 11:30:00 IST''
                          else if t = 1685577600000000 then ''2023-06-01 05:30:00 IST''
                          else ''?'') \<rparr>"

definition example_cutoff :: int where
  \<comment> \<open>2024-01-02 00:00:00 UTC, in microseconds: the run starts a day later.\<close>
  "example_cutoff = 1704153600000000"

definition new_instance :: ResourceInfo where
  \<comment> \<open>An instance launched inside the window, with no datapoints yet.\<close>
  "new_instance =
     (ResourceInfo_init ''EC2 Instance'' ''i-new'' ''N/A'' ''2024-01-02 11:30:00 IST'' ''Unknown''
        ''running'' [] ''No metrics available'' ''$0.139/hr, $3.33/day, $100.00/month''
        ''us-east-1'')
     \<lparr> instance_type := ''x9.mega'', is_unused := True, is_new := True,
       additional_info := ''No associations'', public_ip := ''N/A'',
       environment := ''Unknown'', backup_status := ''No backup configured'' \<rparr>"

definition idle_instance :: ResourceInfo where
  \<comment> \<open>An old instance of a type outside the cost table, idle, with two tags.\<close>
  "idle_instance =
     (ResourceInfo_init ''EC2 Instance'' ''i-idle'' ''web'' ''2023-06-01 05:30:00 IST'' ''Unknown''
        ''running'' [(''Name'', ''web''), (''Env'', ''prod'')]
        ''Avg CPU (7d): 1.00%, Max CPU: 5.00%, Network In: 10.00 MB, Network Out: 10.00 MB''
        ''$0.139/hr, $3.33/day, $100.00/month'' ''us-east-1'')
     \<lparr> instance_type := ''x9.mega'', is_unused := True, is_new := False,
       additional_info := ''No associations'', public_ip := ''N/A'',
       environment := ''Production'', backup_status := ''No backup configured'' \<rparr>"

definition example_instances :: "(string \<times> (error + ResourceInfo)) list" where
  "example_instances =
     [(''running'', Inr new_instance), (''terminated'', Inr new_instance),
      (''running'', Inr idle_instance)]"

definition example_addresses :: "(eip_address \<times> int option) list" where
  \<comment> \<open>Two unassociated addresses: one with no allocation event on record, one allocated
      inside the window.\<close>
  "example_addresses =
     [(\<lparr> AllocationId = Some ''eipalloc-1'', InstanceId = None, NetworkInterfaceId = None,
         PublicIp = Some ''3.3.3.3'', Domain = Some ''vpc'', eip_Tags = [] \<rparr>, None),
      (\<lparr> AllocationId = Some ''eipalloc-2'', InstanceId = None, NetworkInterfaceId = None,
         PublicIp = Some ''4.4.4.4'', Domain = Some ''vpc'', eip_Tags = [] \<rparr>,
       Some 1704175200000000)]"

definition idle_function :: lambda_item where
  \<comment> \<open>A function without tags and without invocations, last modified in June 2023.\<close>
  "idle_function =
     \<lparr> fn = \<lparr> FunctionName = ''cleanup'', LastModified = ''2023-06-01T00:00:00Z'',
              MemorySize = Some 128, Timeout = Some 3, fn_State = Some ''Active'',
              Runtime = Some ''python3.12'' \<rparr>,
       list_tags = Inr (Some []),
       invocations = Inr [] \<rparr>"

definition modified_function :: lambda_item where
  \<comment> \<open>The same function after a change of its code inside the window.\<close>
  "modified_function =
     idle_function \<lparr> fn := (fn idle_function) \<lparr> LastModified := ''2024-01-02T06:00:00Z'' \<rparr> \<rparr>"

definition costed :: "string \<Rightarrow> string \<Rightarrow> ResourceInfo" where
  \<comment> \<open>A descriptor of the given type and estimated cost, for the examples of the totals.\<close>
  "costed rtype cost =
     ResourceInfo_init rtype ''id'' ''N/A'' ''Unknown'' ''Unknown'' ''active'' []
       ''Metrics unavailable'' cost ''us-east-1''"

definition example_unused :: "ResourceInfo list" where
  \<comment> \<open>Five unused resources. The first two cost texts are what \<open>estimate_ec2_cost\<close>
      returns for an m5.large instance and \<open>estimate_ebs_cost\<close> for a gp2 volume of 100 GB.\<close>
  "example_unused =
     [costed ''EC2 Instance'' ''$0.122/hr, $2.93/day, $88.00/month'',
      costed ''EBS Volume'' ''$0.33/day, $10.00/month'',
      costed ''S3 Bucket'' ''Cost estimation unavailable'',
      costed ''Classic Load Balancer'' ''$18/month + $0.008/GB data'',
      costed ''Elastic IP'' ''$3.60/month'']"

definition example_new :: "ResourceInfo list" where
  "example_new = [costed ''RDS Instance'' ''$170.00/month (instance: $150, storage: ~$20)'']"

section \<open>Properties\<close>

subsection \<open>Auxiliary facts\<close>

lemma example_fmt:
  "fmt example_library 2 170 = ''170.00''" "fmt example_library 2 100 = ''100.00''"
  "fmt example_library 3 (5 / 36) = ''0.139''" "fmt example_library 2 (10 / 3) = ''3.33''"
  "fmt example_library 2 (36 / 10) = ''3.60''" "fmt example_library 2 0 = ''0.00''"
  by (simp_all add: example_library_def)

lemma then_do_Inr_iff: "then_do m f = Inr y \<longleftrightarrow> (\<exists>x. m = Inr x \<and> f x = Inr y)"
  by (cases m) (simp_all add: then_do_def)

lemma key_Inr_iff: "key v = Inr x \<longleftrightarrow> v = Some x"
  by (cases v) (simp_all add: key_def)

lemma keys_of_all_Inr: "keys_of_all f ds = Inr xs \<longleftrightarrow> map f ds = map Some xs"
proof (induction ds arbitrary: xs)
  case Nil
  show ?case by auto
next
  case (Cons d ds)
  show ?case
  proof (cases xs)
    case Nil
    then show ?thesis by (simp add: then_do_Inr_iff)
  next
    case (Cons y ys)
    then show ?thesis
      using Cons.IH [of ys] by (simp add: then_do_Inr_iff key_Inr_iff)
  qed
qed

lemma risk_score_nonneg: "0 \<le> risk_score r"
  by (simp add: risk_score_def Let_def)

subsection \<open>Risk scoring\<close>

text \<open>
  Claim C2. The tier of a risk score is High exactly from 6 upwards, Medium exactly from
  3 to 5 and Low exactly up to 2, and a greater score never has a lower tier in the order
  Low < Medium < High. It holds for every integer score; the scores that
  \<open>calculate_risk_level\<close> maps are never negative (\<open>risk_score_nonneg\<close>).
\<close>

theorem risk_tier_breakpoints:
  "(risk_tier score = ''High'' \<longleftrightarrow> score \<ge> 6)
   \<and> (risk_tier score = ''Medium'' \<longleftrightarrow> 3 \<le> score \<and> score \<le> 5)
   \<and> (risk_tier score = ''Low'' \<longleftrightarrow> score \<le> 2)
   \<and> (\<forall>a b. a \<le> b \<longrightarrow> tier_rank (risk_tier a) \<le> tier_rank (risk_tier b))"
  by (auto simp: risk_tier_def tier_rank_def)

theorem risk_tier_breakpoints_witness:
  "risk_tier 7 = ''High'' \<and> risk_tier 4 = ''Medium'' \<and> risk_tier 0 = ''Low''
   \<and> tier_rank (risk_tier 2) \<le> tier_rank (risk_tier 7)"
  using risk_tier_breakpoints [of 7] risk_tier_breakpoints [of 4] risk_tier_breakpoints [of 0]
    risk_tier_breakpoints [of 7, THEN conjunct2, THEN conjunct2, THEN conjunct2,
      rule_format, of 2 7]
  by simp

text \<open>
  Claim C3. The score that the risk scorer accumulates is the sum of 3 for a public IP
  (a non-empty text other than N/A), 2 for an additional-info text that contains
  \<^verbatim>\<open>Encrypted: False\<close>, 2 for an unused resource, 3 for a Production resource whose backup
  status contains \<^verbatim>\<open>No backup\<close>, and 1 for every compliance check whose value is false;
  the risk level returned is the tier of that sum.
\<close>

theorem risk_score_is_weighted_sum:
  "risk_score r = spec_risk_score r \<and> calculate_risk_level r = risk_tier (spec_risk_score r)"
  by (simp add: risk_score_def spec_risk_score_def calculate_risk_level_def Let_def
      has_public_ip_def indicates_unencrypted_def production_without_backup_def
      failed_checks_def split_def)

theorem risk_score_is_weighted_sum_witness:
  "risk_score ((ResourceInfo_init ''EBS Volume'' ''vol-1'' ''N/A'' ''2023-06-01 05:30:00 IST''
        ''Unknown'' ''available'' [] ''Size: 100 GB, Type: gp2, Not attached''
        ''$0.33/day, $10.00/month'' ''us-east-1'')
      \<lparr> is_unused := True, additional_info := ''IOPS: 300, Encrypted: False, No snapshots'',
        public_ip := ''3.3.3.3'', environment := ''Production'', backup_status := ''No backup'',
        compliance_status := [(''a'', False), (''b'', True), (''c'', False)] \<rparr>) = 12"
  using risk_score_is_weighted_sum [of "(ResourceInfo_init ''EBS Volume'' ''vol-1'' ''N/A''
        ''2023-06-01 05:30:00 IST'' ''Unknown'' ''available'' []
        ''Size: 100 GB, Type: gp2, Not attached'' ''$0.33/day, $10.00/month'' ''us-east-1'')
      \<lparr> is_unused := True, additional_info := ''IOPS: 300, Encrypted: False, No snapshots'',
        public_ip := ''3.3.3.3'', environment := ''Production'', backup_status := ''No backup'',
        compliance_status := [(''a'', False), (''b'', True), (''c'', False)] \<rparr>"]
  by (simp add: spec_risk_score_def has_public_ip_def indicates_unencrypted_def
      production_without_backup_def failed_checks_def ResourceInfo_init_def sublist_code)

subsection \<open>Usage evaluators\<close>

lemma get_metric_sum_first:
  "Sum d = Some s \<Longrightarrow> get_metric_sum (Inr (d # ds)) = megabytes s"
  by (simp add: get_metric_sum_def then_do_def key_def megabytes_def)

lemma check_ec2_usage_available:
  assumes "avgs \<noteq> []" and "map Average dps = map Some avgs" and "map Maximum dps = map Some maxs"
  shows "snd (check_ec2_usage L (Inr dps) net_in net_out) \<longleftrightarrow>
           (mean avgs < 2 \<and> Max (set maxs) < 10
            \<and> get_metric_sum net_in < 100 \<and> get_metric_sum net_out < 100)"
proof -
  from assms have ne: "dps \<noteq> []" by auto
  have len: "length avgs = length dps" "length maxs = length dps"
    using assms(2,3) by (metis length_map)+
  then obtain m ms where maxs: "maxs = m # ms" using ne by (cases maxs) auto
  have ka: "keys_of_all Average dps = Inr avgs" and km: "keys_of_all Maximum dps = Inr maxs"
    using assms by (simp_all add: keys_of_all_Inr)
  have mx: "py_max maxs = Inr (Max (set maxs))"
    by (simp add: py_max_def maxs Max.set_eq_fold del: set_simps)
  show ?thesis
    unfolding check_ec2_usage_def
    by (simp add: then_do_def ne ka km mx Let_def mean_def len)
qed

text \<open>
  Claim C4. When the provider returns the daily CPU datapoints of the last 7 days (at
  least one, each with its average and its maximum) and a 7-day sum for the traffic in
  each direction, the compute-instance evaluator answers unused exactly when the mean of
  the averages is below 2, the greatest maximum is below 10 and each of the two sums is
  below 100 megabytes (of 1024 * 1024 bytes).
\<close>

theorem check_ec2_usage_idle_iff:
  assumes "avgs \<noteq> []" and "map Average dps = map Some avgs" and "map Maximum dps = map Some maxs"
    and "Sum din = Some bytes_in" and "Sum dout = Some bytes_out"
  shows "snd (check_ec2_usage L (Inr dps) (Inr (din # dins)) (Inr (dout # douts))) \<longleftrightarrow>
           (mean avgs < 2 \<and> Max (set maxs) < 10
            \<and> megabytes bytes_in < 100 \<and> megabytes bytes_out < 100)"
  using check_ec2_usage_available [OF assms(1-3)] assms(4,5)
  by (simp add: get_metric_sum_first)

theorem check_ec2_usage_idle_iff_witness:
  "snd (check_ec2_usage example_library
          (Inr [\<lparr>Average = Some 1, Maximum = Some 5, Sum = None\<rparr>,
                \<lparr>Average = Some 1.5, Maximum = Some 4, Sum = None\<rparr>])
          (Inr [\<lparr>Average = None, Maximum = None, Sum = Some 10485760\<rparr>])
          (Inr [\<lparr>Average = None, Maximum = None, Sum = Some 10485760\<rparr>]))
   \<and> \<not> snd (check_ec2_usage example_library
          (Inr [\<lparr>Average = Some 1, Maximum = Some 5, Sum = None\<rparr>,
                \<lparr>Average = Some 1.5, Maximum = Some 4, Sum = None\<rparr>])
          (Inr [\<lparr>Average = None, Maximum = None, Sum = Some 104857600\<rparr>])
          (Inr [\<lparr>Average = None, Maximum = None, Sum = Some 10485760\<rparr>]))"
  using check_ec2_usage_idle_iff [of "[1, 1.5]"
      "[\<lparr>Average = Some 1, Maximum = Some 5, Sum = None\<rparr>,
        \<lparr>Average = Some 1.5, Maximum = Some 4, Sum = None\<rparr>]" "[5, 4]"
      "\<lparr>Average = None, Maximum = None, Sum = Some 10485760\<rparr>" 10485760
      "\<lparr>Average = None, Maximum = None, Sum = Some 10485760\<rparr>" 10485760
      example_library "[]" "[]"]
    check_ec2_usage_idle_iff [of "[1, 1.5]"
      "[\<lparr>Average = Some 1, Maximum = Some 5, Sum = None\<rparr>,
        \<lparr>Average = Some 1.5, Maximum = Some 4, Sum = None\<rparr>]" "[5, 4]"
      "\<lparr>Average = None, Maximum = None, Sum = Some 104857600\<rparr>" 104857600
      "\<lparr>Average = None, Maximum = None, Sum = Some 10485760\<rparr>" 10485760
      example_library "[]" "[]"]
  by (simp add: mean_def megabytes_def)

text \<open>
  Claim C5. The compute-instance and the database evaluator return a degraded summary
  with the verdict unused when the provider answers with no datapoint, and a degraded
  summary with the verdict not unused when the provider call raises.
\<close>

theorem degraded_usage_defaults:
  "check_ec2_usage L (Inr []) net_in net_out = (''No metrics available'', True)
   \<and> check_ec2_usage L (Inl e) net_in net_out = (''Metrics unavailable'', False)
   \<and> check_rds_usage L (Inr []) = (''No connection metrics available'', True)
   \<and> check_rds_usage L (Inl e) = (''Metrics unavailable'', False)"
  by (simp add: check_ec2_usage_def check_rds_usage_def then_do_def)

theorem degraded_usage_defaults_witness:
  "snd (check_ec2_usage example_library (Inr []) (Inr []) (Inr []))
   \<and> \<not> snd (check_ec2_usage example_library (Inl ClientError) (Inr []) (Inr []))
   \<and> snd (check_rds_usage example_library (Inr []))
   \<and> \<not> snd (check_rds_usage example_library (Inl ClientError))"
  using degraded_usage_defaults [of example_library "Inr []" "Inr []" ClientError]
  by simp

subsection \<open>Cost estimators\<close>

lemma str_nat_150: "str_nat 150 = ''150''" and str_nat_20: "str_nat 20 = ''20''"
  by (simp_all add: str_nat.simps)

lemma cost_map_distinct: "distinct (map fst cost_map)"
  by (simp add: cost_map_def)

lemma base_costs_distinct: "distinct (map fst base_costs)"
  by (simp add: base_costs_def)

lemma get_or_absent: "k \<notin> fst ` set d \<Longrightarrow> get_or d k v = v"
  by (simp add: get_or_def map_of_eq_None_iff [THEN iffD2])

lemma get_or_present: "distinct (map fst d) \<Longrightarrow> (k, x) \<in> set d \<Longrightarrow> get_or d k v = x"
  by (simp add: get_or_def)

text \<open>
  Claim C7. The two cost estimators are functions of the instance type (class) alone and
  return a cost text for every string: the amount of the table for a string in the table,
  and otherwise the fallback, 100 per month for a compute instance and 150 per month plus
  20 of storage for a database. The text is never the one of a failed estimation, and
  equal inputs give equal texts (the database engine is not read).
\<close>

theorem cost_estimators_fallback:
  "(t \<notin> fst ` set cost_map \<longrightarrow> estimate_ec2_cost L t = ec2_cost_text L 100)
   \<and> ((t, m) \<in> set cost_map \<longrightarrow> estimate_ec2_cost L t = ec2_cost_text L m)
   \<and> estimate_ec2_cost L t \<noteq> ''Cost estimation unavailable''
   \<and> (c \<notin> fst ` set base_costs \<longrightarrow> estimate_rds_cost L c e = rds_cost_text L 150 20)
   \<and> ((c, n) \<in> set base_costs \<longrightarrow> estimate_rds_cost L c e = rds_cost_text L n 20)
   \<and> rds_cost_text L 150 20
       = ''$'' @ fmt L 2 170 @ ''/month (instance: $150, storage: ~$20)''
   \<and> ec2_cost_text L 100
       = ''$'' @ fmt L 3 (100 / 720) @ ''/hr, $'' @ fmt L 2 (100 / 30) @ ''/day, $''
         @ fmt L 2 100 @ ''/month''
   \<and> estimate_rds_cost L c e \<noteq> ''Cost estimation unavailable''
   \<and> (t = t' \<longrightarrow> estimate_ec2_cost L t = estimate_ec2_cost L t')
   \<and> (c = c' \<longrightarrow> estimate_rds_cost L c e = estimate_rds_cost L c' e')"
proof -
  have "estimate_rds_cost L c e = estimate_rds_cost L c e'" for c e e'
    by (simp add: estimate_rds_cost_def)
  then show ?thesis
    by (auto simp: estimate_ec2_cost_def ec2_monthly_cost_def estimate_rds_cost_def
        get_or_absent get_or_present cost_map_distinct base_costs_distinct
        rds_cost_text_def ec2_cost_text_def Let_def str_int_def str_nat_150 str_nat_20)
qed

theorem cost_estimators_fallback_witness:
  "estimate_ec2_cost example_library ''x9.mega'' = ''$0.139/hr, $3.33/day, $100.00/month''
   \<and> estimate_rds_cost example_library ''db.x9.mega'' ''postgres''
       = ''$170.00/month (instance: $150, storage: ~$20)''
   \<and> estimate_rds_cost example_library ''db.x9.mega'' ''mysql''
       = ''$170.00/month (instance: $150, storage: ~$20)''"
proof -
  note c = cost_estimators_fallback [of "''x9.mega''" example_library 0 "''db.x9.mega''"
        "''postgres''" 0 "''x9.mega''" "''db.x9.mega''" "''mysql''"]
  have a: "''x9.mega'' \<notin> fst ` set cost_map"
    by (simp add: cost_map_def)
  have b: "''db.x9.mega'' \<notin> fst ` set base_costs"
    by (simp add: base_costs_def)
  have "estimate_ec2_cost example_library ''x9.mega'' = ec2_cost_text example_library 100"
    using a c by blast
  moreover have "ec2_cost_text example_library 100 = ''$0.139/hr, $3.33/day, $100.00/month''"
    using c by (simp add: example_fmt)
  moreover have "estimate_rds_cost example_library ''db.x9.mega'' ''postgres''
      = rds_cost_text example_library 150 20"
    using b c by blast
  moreover have "estimate_rds_cost example_library ''db.x9.mega'' ''postgres''
      = estimate_rds_cost example_library ''db.x9.mega'' ''mysql''"
    using c by blast
  moreover have "rds_cost_text example_library 150 20
      = ''$170.00/month (instance: $150, storage: ~$20)''"
    using c by (simp add: example_fmt)
  ultimately show ?thesis by simp
qed

subsection \<open>Optimization advisor\<close>

text \<open>
  Claim C8. A gp2 volume that is unattached and unencrypted (the key is absent or false)
  has the tier-upgrade, the snapshot-and-delete and the enable-encryption suggestion in
  its list.
\<close>

theorem gp2_unattached_unencrypted_suggestions:
  assumes "VolumeType v = ''gp2''" and "Attachments v = []"
    and "Encrypted v = None \<or> Encrypted v = Some False"
  shows "''Migrate from gp2 to gp3 for 20% cost savings and better performance''
           \<in> set (ebs_suggestions v)
       \<and> ''Create snapshot and delete unattached volume to save costs''
           \<in> set (ebs_suggestions v)
       \<and> ''Enable encryption for compliance and security'' \<in> set (ebs_suggestions v)"
  using assms
  by (auto simp: ebs_suggestions_def get_ebs_optimization_suggestions_def is_attached_def
      or_default_def)

theorem gp2_unattached_unencrypted_suggestions_witness:
  "ebs_suggestions \<lparr> VolumeId = ''vol-0abc'', VolumeType = ''gp2'', Size = 100, Iops = Some 300,
       Encrypted = Some False, vol_State = ''available'', Attachments = [] \<rparr>
   = [''Migrate from gp2 to gp3 for 20% cost savings and better performance'',
      ''Create snapshot and delete unattached volume to save costs'',
      ''Enable encryption for compliance and security'']"
  using gp2_unattached_unencrypted_suggestions [of "\<lparr> VolumeId = ''vol-0abc'',
       VolumeType = ''gp2'', Size = 100, Iops = Some 300,
       Encrypted = Some False, vol_State = ''available'', Attachments = [] \<rparr>"]
  by (simp add: ebs_suggestions_def get_ebs_optimization_suggestions_def is_attached_def
      or_default_def)

lemma lambda_body_Built:
  assumes "fromisoformat L (replace_char CHR ''Z'' ''+00:00'' (LastModified (fn it))) = Inr t"
    and "list_tags it = Inr tr"
  shows "\<exists>d. lambda_body L c reg it = Built d \<and> is_new d = (c \<le> t)
           \<and> is_unused d = snd (check_lambda_usage (invocations it))
           \<and> tags d = or_default tr []
           \<and> created_time d = strftime_ist L t
           \<and> cost_optimization_suggestions d
               = lambda_suggestions (snd (check_lambda_usage (invocations it)))
                   (or_default (MemorySize (fn it)) 128)"
  by (simp add: lambda_body_def then_do_def outcome_of_def Let_def ResourceInfo_init_def assms)

lemma example_fromisoformat:
  "fromisoformat example_library (replace_char CHR ''Z'' ''+00:00'' ''2023-06-01T00:00:00Z'')
     = Inr 1685577600000000"
  "fromisoformat example_library (replace_char CHR ''Z'' ''+00:00'' ''2024-01-02T06:00:00Z'')
     = Inr 1704175200000000"
  by (simp_all add: example_library_def replace_char_def)

lemma idle_function_fields:
  "LastModified (fn idle_function) = ''2023-06-01T00:00:00Z''"
  "list_tags idle_function = Inr (Some [])"
  "invocations idle_function = Inr []"
  "MemorySize (fn idle_function) = Some 128"
  "LastModified (fn modified_function) = ''2024-01-02T06:00:00Z''"
  "list_tags modified_function = Inr (Some [])"
  "invocations modified_function = Inr []"
  "MemorySize (fn modified_function) = Some 128"
  by (simp_all add: idle_function_def modified_function_def)

lemma check_lambda_usage_empty: "snd (check_lambda_usage (Inr [])) = True"
  by (simp add: check_lambda_usage_def then_do_def)

lemma type_specific_no_general:
  assumes "type_specific_suggestions L r = Inr ts"
  shows "tagging_suggestion \<notin> set ts \<and> savings_reminder r' \<notin> set ts"
  using assms
  by (auto simp: type_specific_suggestions_def then_do_def tagging_suggestion_def
      savings_reminder_def split: if_splits sum.splits)

lemma savings_reminder_not_tagging: "savings_reminder r \<noteq> tagging_suggestion"
  by (simp add: savings_reminder_def tagging_suggestion_def)

lemma general_advisor_Inr:
  assumes "get_cost_optimization_suggestions L r = Inr s"
  shows "(is_unused r \<longrightarrow> savings_reminder r \<in> set s)
       \<and> (tagging_suggestion \<in> set s \<longleftrightarrow> length (tags r) < 3)"
proof -
  from assms obtain ts where ts: "type_specific_suggestions L r = Inr ts"
    and s: "s = ts @ (if is_unused r then [savings_reminder r] else [])
         @ (if tags r = [] \<or> length (tags r) < 3 then [tagging_suggestion] else [])"
    by (auto simp: get_cost_optimization_suggestions_def then_do_Inr_iff)
  from type_specific_no_general [OF ts] have "tagging_suggestion \<notin> set ts" by blast
  then show ?thesis
    using savings_reminder_not_tagging [of r] by (auto simp: s)
qed

lemma type_specific_returns:
  assumes "resource_type r \<noteq> ''EC2 Instance'' \<or> \<not> sublist ''Avg CPU'' (usage_info r)
      \<or> search_avg_cpu L (usage_info r) = Inr a"
  shows "\<exists>ts. type_specific_suggestions L r = Inr ts"
  using assms by (auto simp: type_specific_suggestions_def then_do_def)

lemma general_advisor_returns:
  assumes "resource_type r \<noteq> ''EC2 Instance'' \<or> \<not> sublist ''Avg CPU'' (usage_info r)
      \<or> search_avg_cpu L (usage_info r) = Inr a"
  shows "\<exists>s. get_cost_optimization_suggestions L r = Inr s"
  using type_specific_returns [OF assms]
  by (auto simp: get_cost_optimization_suggestions_def then_do_def)

lemma ec2_body_Built:
  assumes "ec2_body L it = Built d"
  shows "\<exists>r s. snd it = Inr r \<and> get_cost_optimization_suggestions L r = Inr s
           \<and> d = r\<lparr>cost_optimization_suggestions := s,
                   risk_level := calculate_risk_level (r\<lparr>cost_optimization_suggestions := s\<rparr>)\<rparr>"
  using assms
  by (auto simp: ec2_body_def outcome_of_def then_do_def Let_def split: if_splits sum.splits)

lemma family_advisors_no_general:
  "tagging_suggestion \<notin> set (lambda_suggestions u m)"
  "tagging_suggestion \<notin> set (get_ebs_optimization_suggestions v att)"
  "tagging_suggestion \<notin> set (get_rds_optimization_suggestions db)"
  "tagging_suggestion \<notin> set (get_s3_optimization_suggestions lc vers enc u)"
  "tagging_suggestion \<notin> set (classic_lb_suggestions u)"
  "tagging_suggestion \<notin> set (v2_lb_suggestions lbt u n)"
  "tagging_suggestion \<notin> set (eip_suggestions asc)"
  by (auto simp: tagging_suggestion_def lambda_suggestions_def
      get_ebs_optimization_suggestions_def get_rds_optimization_suggestions_def
      get_s3_optimization_suggestions_def classic_lb_suggestions_def v2_lb_suggestions_def
      eip_suggestions_def split: sum.splits)

lemma family_advisors_no_reminder:
  "savings_reminder r \<notin> set (lambda_suggestions u m)"
  "savings_reminder r \<notin> set (get_ebs_optimization_suggestions v att)"
  "savings_reminder r \<notin> set (get_rds_optimization_suggestions db)"
  "savings_reminder r \<notin> set (get_s3_optimization_suggestions lc vers enc u)"
  "savings_reminder r \<notin> set (classic_lb_suggestions u)"
  "savings_reminder r \<notin> set (v2_lb_suggestions lbt u n)"
  "savings_reminder r \<notin> set (eip_suggestions asc)"
  by (auto simp: savings_reminder_def lambda_suggestions_def
      get_ebs_optimization_suggestions_def get_rds_optimization_suggestions_def
      get_s3_optimization_suggestions_def classic_lb_suggestions_def v2_lb_suggestions_def
      eip_suggestions_def split: sum.splits)

text \<open>
  Claim C6, as the code has it. The two general suggestions belong to the general advisor
  \<open>get_cost_optimization_suggestions\<close>, which the scan calls for compute instances only.
  When the advisor returns (it raises only if the usage text of a compute instance names
  an average CPU that the library cannot read), the list of an unused resource contains
  the savings reminder built from the resource's own estimated cost, and the list
  contains the tagging suggestion exactly when the resource has fewer than 3 tags; the
  same holds of the descriptor that the compute-instance loop builds. In every family a
  resource with 3 or more tags is without the tagging suggestion: the advisors of the
  other families (functions, volumes, databases, buckets, load balancers, floating IPs)
  do not produce it.
\<close>

theorem general_advisor_universal_suggestions:
  "(get_cost_optimization_suggestions L r = Inr s \<longrightarrow>
      (is_unused r \<longrightarrow> savings_reminder r \<in> set s)
      \<and> (tagging_suggestion \<in> set s \<longleftrightarrow> length (tags r) < 3))
   \<and> (ec2_body L it = Built d \<longrightarrow>
      (is_unused d \<longrightarrow> savings_reminder d \<in> set (cost_optimization_suggestions d))
      \<and> (tagging_suggestion \<in> set (cost_optimization_suggestions d) \<longleftrightarrow> length (tags d) < 3))
   \<and> (resource_type r \<noteq> ''EC2 Instance'' \<or> \<not> sublist ''Avg CPU'' (usage_info r)
        \<or> search_avg_cpu L (usage_info r) = Inr a \<longrightarrow>
      (\<exists>s'. get_cost_optimization_suggestions L r = Inr s'))
   \<and> tagging_suggestion \<notin> set (lambda_suggestions u m)
   \<and> tagging_suggestion \<notin> set (get_ebs_optimization_suggestions v att)
   \<and> tagging_suggestion \<notin> set (get_rds_optimization_suggestions db)
   \<and> tagging_suggestion \<notin> set (get_s3_optimization_suggestions lc vers enc u)
   \<and> tagging_suggestion \<notin> set (classic_lb_suggestions u)
   \<and> tagging_suggestion \<notin> set (v2_lb_suggestions lbt u n)
   \<and> tagging_suggestion \<notin> set (eip_suggestions asc)"
proof -
  have "(is_unused d \<longrightarrow> savings_reminder d \<in> set (cost_optimization_suggestions d))
      \<and> (tagging_suggestion \<in> set (cost_optimization_suggestions d) \<longleftrightarrow> length (tags d) < 3)"
    if "ec2_body L it = Built d"
  proof -
    from ec2_body_Built [OF that] obtain r0 s0 where
      g: "get_cost_optimization_suggestions L r0 = Inr s0"
      and d: "d = r0\<lparr>cost_optimization_suggestions := s0,
                   risk_level := calculate_risk_level (r0\<lparr>cost_optimization_suggestions := s0\<rparr>)\<rparr>"
      by blast
    show ?thesis
      using general_advisor_Inr [OF g] by (simp add: d savings_reminder_def)
  qed
  then show ?thesis
    using general_advisor_Inr [of L r s] general_advisor_returns [of r L a]
    by (simp add: family_advisors_no_general)
qed

text \<open>
  The claim as stated fails for a function: the descriptor of an unused function without
  tags has one suggestion, which is neither the tagging suggestion nor a savings reminder.
\<close>

theorem lambda_lacks_universal_suggestions:
  "(case lambda_body example_library example_cutoff ''us-east-1'' idle_function of
      Built d \<Rightarrow> is_unused d \<and> length (tags d) < 3
        \<and> cost_optimization_suggestions d = [''Delete unused Lambda function'']
        \<and> tagging_suggestion \<notin> set (cost_optimization_suggestions d)
        \<and> savings_reminder d \<notin> set (cost_optimization_suggestions d)
    | Raised e \<Rightarrow> False
    | Skipped \<Rightarrow> False)"
proof -
  obtain d where d: "lambda_body example_library example_cutoff ''us-east-1'' idle_function = Built d"
    and u: "is_unused d" and t: "tags d = []"
    and s: "cost_optimization_suggestions d = lambda_suggestions True 128"
    using lambda_body_Built [of example_library idle_function 1685577600000000 "Some []"
        example_cutoff "''us-east-1''"]
    by (auto simp: idle_function_fields example_fromisoformat check_lambda_usage_empty
        or_default_def)
  have "lambda_suggestions True 128 = [''Delete unused Lambda function'']"
    by (simp add: lambda_suggestions_def)
  then show ?thesis
    using u t s by (simp add: d tagging_suggestion_def savings_reminder_def)
qed

theorem general_advisor_universal_suggestions_witness:
  "(case ec2_body example_library (''running'', Inr idle_instance) of
      Built d \<Rightarrow> is_unused d \<and> length (tags d) < 3
        \<and> savings_reminder d
            = ''Resource unused - potential savings: $0.139/hr, $3.33/day, $100.00/month''
        \<and> savings_reminder d \<in> set (cost_optimization_suggestions d)
        \<and> tagging_suggestion \<in> set (cost_optimization_suggestions d)
    | Raised e \<Rightarrow> False
    | Skipped \<Rightarrow> False)"
proof -
  have "resource_type idle_instance = ''EC2 Instance''"
    and av: "search_avg_cpu example_library (usage_info idle_instance) = Inr 1"
    by (simp_all add: idle_instance_def ResourceInfo_init_def example_library_def)
  from general_advisor_universal_suggestions [of example_library idle_instance _ _ _ 1]
  obtain s where s: "get_cost_optimization_suggestions example_library idle_instance = Inr s"
    using av by blast
  define d where "d = idle_instance\<lparr>cost_optimization_suggestions := s,
      risk_level := calculate_risk_level (idle_instance\<lparr>cost_optimization_suggestions := s\<rparr>)\<rparr>"
  have b: "ec2_body example_library (''running'', Inr idle_instance) = Built d"
    by (simp add: ec2_body_def outcome_of_def then_do_def s d_def Let_def)
  have f: "is_unused d" "length (tags d) < 3"
    "savings_reminder d
       = ''Resource unused - potential savings: $0.139/hr, $3.33/day, $100.00/month''"
    by (simp_all add: d_def idle_instance_def ResourceInfo_init_def savings_reminder_def)
  from general_advisor_universal_suggestions
    [of example_library idle_instance s "(''running'', Inr idle_instance)" d]
  have "savings_reminder d \<in> set (cost_optimization_suggestions d)"
    and "tagging_suggestion \<in> set (cost_optimization_suggestions d)"
    using b f by blast+
  then show ?thesis
    using f by (simp add: b)
qed

subsection \<open>Placing descriptors in the two collections\<close>

lemma family_loop_filter:
  "family_loop body xs acc =
     (fst acc @ filter is_new (built body xs),
      snd acc @ filter (\<lambda>r. is_unused r \<and> \<not> is_new r) (built body xs))"
proof (induction xs arbitrary: acc)
  case Nil
  show ?case by simp
next
  case (Cons x xs)
  show ?case
    by (cases "body x") (simp_all add: Cons.IH place_resource_def)
qed

lemma eip_resource_flags:
  "is_new (eip_resource L c reg aid eip t) = eip_is_new c t"
  "is_unused (eip_resource L c reg aid eip t) = (\<not> eip_is_associated eip)"
  by (simp_all add: eip_resource_def Let_def)

lemma eip_step_filter:
  "eip_step L c reg x acc =
     (fst acc @ filter is_new (eip_built L c reg [x]),
      snd acc @ filter (\<lambda>r. is_unused r \<and> \<not> is_new r) (eip_built L c reg [x]))"
  by (cases "AllocationId (fst x)")
     (simp_all add: eip_step_def eip_built_def eip_resource_flags Let_def)

lemma eip_built_Cons:
  "eip_built L c reg (x # xs) = eip_built L c reg [x] @ eip_built L c reg xs"
  by (simp add: eip_built_def)

lemma eip_fold_filter:
  "fold (eip_step L c reg) xs acc =
     (fst acc @ filter is_new (eip_built L c reg xs),
      snd acc @ filter (\<lambda>r. is_unused r \<and> \<not> is_new r) (eip_built L c reg xs))"
proof (induction xs arbitrary: acc)
  case Nil
  show ?case by (simp add: eip_built_def)
next
  case (Cons x xs)
  have "fold (eip_step L c reg) (x # xs) acc
      = fold (eip_step L c reg) xs (eip_step L c reg x acc)"
    by simp
  also have "\<dots> = (fst (eip_step L c reg x acc) @ filter is_new (eip_built L c reg xs),
      snd (eip_step L c reg x acc)
        @ filter (\<lambda>r. is_unused r \<and> \<not> is_new r) (eip_built L c reg xs))"
    by (rule Cons.IH)
  also have "\<dots> = (fst acc @ filter is_new (eip_built L c reg (x # xs)),
      snd acc @ filter (\<lambda>r. is_unused r \<and> \<not> is_new r) (eip_built L c reg (x # xs)))"
    by (simp add: eip_step_filter [of L c reg x acc] eip_built_Cons [of L c reg x xs])
  finally show ?case .
qed

lemma run_collect_concat:
  "fold (\<lambda>res acc. (fst acc @ fst res, snd acc @ snd res)) results acc
     = (fst acc @ concat (map fst results), snd acc @ concat (map snd results))"
  by (induction results arbitrary: acc) simp_all

lemma filters_disjoint:
  "set (filter is_new xs) \<inter> set (filter (\<lambda>r. is_unused r \<and> \<not> is_new r) ys) = {}"
  by auto

lemma classified_family_loop: "classified (family_loop body xs ([], []))"
  by (simp add: family_loop_filter classified_def list_all_iff)

lemma classified_elastic_ips: "classified (get_all_elastic_ips L c reg xs)"
  by (simp add: get_all_elastic_ips_def eip_fold_filter classified_def list_all_iff)

lemma classified_disjoint:
  assumes "list_all classified results"
  shows "set (fst (run_collect results)) \<inter> set (snd (run_collect results)) = {}"
proof -
  have "is_new r" if "r \<in> set (fst (run_collect results))" for r
    using that assms
    by (auto simp: run_collect_def run_collect_concat classified_def list_all_iff)
  moreover have "\<not> is_new r" if "r \<in> set (snd (run_collect results))" for r
    using that assms
    by (auto simp: run_collect_def run_collect_concat classified_def list_all_iff)
  ultimately show ?thesis by blast
qed

text \<open>
  Claim C1. The compute-instance loop and the floating-IP loop (and every loop of the
  same shape) return as New exactly the descriptors they built whose \<open>is_new\<close> is true and
  as Unused exactly those whose \<open>is_unused\<close> is true and whose \<open>is_new\<close> is false, each once
  and in the order of the scan; so no descriptor is in both collections of a family, nor
  in both collections of the run that appends the families' results.
\<close>

theorem new_and_unused_placement:
  "get_all_ec2_instances L instances =
     (filter is_new (built (ec2_body L) instances),
      filter (\<lambda>r. is_unused r \<and> \<not> is_new r) (built (ec2_body L) instances))
   \<and> get_all_elastic_ips L c reg addresses =
     (filter is_new (eip_built L c reg addresses),
      filter (\<lambda>r. is_unused r \<and> \<not> is_new r) (eip_built L c reg addresses))
   \<and> family_loop body xs ([], []) =
     (filter is_new (built body xs), filter (\<lambda>r. is_unused r \<and> \<not> is_new r) (built body xs))
   \<and> set (fst (get_all_ec2_instances L instances))
       \<inter> set (snd (get_all_ec2_instances L instances)) = {}
   \<and> set (fst (get_all_elastic_ips L c reg addresses))
       \<inter> set (snd (get_all_elastic_ips L c reg addresses)) = {}
   \<and> classified (family_loop body xs ([], []))
   \<and> classified (get_all_elastic_ips L c reg addresses)
   \<and> (list_all classified results \<longrightarrow>
        set (fst (run_collect results)) \<inter> set (snd (run_collect results)) = {})"
proof -
  have a: "get_all_ec2_instances L instances =
     (filter is_new (built (ec2_body L) instances),
      filter (\<lambda>r. is_unused r \<and> \<not> is_new r) (built (ec2_body L) instances))"
    by (simp add: get_all_ec2_instances_def family_loop_filter)
  have b: "get_all_elastic_ips L c reg addresses =
     (filter is_new (eip_built L c reg addresses),
      filter (\<lambda>r. is_unused r \<and> \<not> is_new r) (eip_built L c reg addresses))"
    by (simp add: get_all_elastic_ips_def eip_fold_filter)
  have d: "family_loop body xs ([], []) =
     (filter is_new (built body xs), filter (\<lambda>r. is_unused r \<and> \<not> is_new r) (built body xs))"
    by (simp add: family_loop_filter)
  have e: "set (fst (get_all_ec2_instances L instances))
       \<inter> set (snd (get_all_ec2_instances L instances)) = {}"
    unfolding a fst_conv snd_conv by (rule filters_disjoint)
  have f: "set (fst (get_all_elastic_ips L c reg addresses))
       \<inter> set (snd (get_all_elastic_ips L c reg addresses)) = {}"
    unfolding b fst_conv snd_conv by (rule filters_disjoint)
  show ?thesis
    using a b d e f classified_family_loop [of body xs]
      classified_elastic_ips [of L c reg addresses] classified_disjoint [of results]
    by blast
qed

lemma eip_resource_id: "resource_id (eip_resource L c reg aid eip t) = aid"
  by (simp add: eip_resource_def Let_def ResourceInfo_init_def)

theorem new_and_unused_placement_witness:
  "map resource_id (fst (get_all_ec2_instances example_library example_instances)) = [''i-new'']
   \<and> map resource_id (snd (get_all_ec2_instances example_library example_instances))
       = [''i-idle'']
   \<and> map resource_id
        (fst (get_all_elastic_ips example_library example_cutoff ''us-east-1'' example_addresses))
       = [''eipalloc-2'']
   \<and> map resource_id
        (snd (get_all_elastic_ips example_library example_cutoff ''us-east-1'' example_addresses))
       = [''eipalloc-1'']
   \<and> set (fst (run_collect
          [get_all_ec2_instances example_library example_instances,
           get_all_elastic_ips example_library example_cutoff ''us-east-1'' example_addresses]))
     \<inter> set (snd (run_collect
          [get_all_ec2_instances example_library example_instances,
           get_all_elastic_ips example_library example_cutoff ''us-east-1'' example_addresses]))
     = {}"
proof -
  let ?E = "get_all_ec2_instances example_library example_instances"
  let ?A = "get_all_elastic_ips example_library example_cutoff ''us-east-1'' example_addresses"
  note pl = new_and_unused_placement [of example_library example_instances example_cutoff
      "''us-east-1''" example_addresses "ec2_body example_library" example_instances "[?E, ?A]"]
  have "\<not> sublist ''Avg CPU'' (usage_info new_instance)"
    by (simp add: new_instance_def ResourceInfo_init_def sublist_code)
  then obtain s1 where s1: "get_cost_optimization_suggestions example_library new_instance = Inr s1"
    using general_advisor_returns [of new_instance example_library 0] by blast
  have "search_avg_cpu example_library (usage_info idle_instance) = Inr 1"
    by (simp add: idle_instance_def ResourceInfo_init_def example_library_def)
  then obtain s2 where s2: "get_cost_optimization_suggestions example_library idle_instance = Inr s2"
    using general_advisor_returns [of idle_instance example_library 1] by blast
  define d1 where "d1 = new_instance\<lparr>cost_optimization_suggestions := s1,
      risk_level := calculate_risk_level (new_instance\<lparr>cost_optimization_suggestions := s1\<rparr>)\<rparr>"
  define d2 where "d2 = idle_instance\<lparr>cost_optimization_suggestions := s2,
      risk_level := calculate_risk_level (idle_instance\<lparr>cost_optimization_suggestions := s2\<rparr>)\<rparr>"
  have b: "built (ec2_body example_library) example_instances = [d1, d2]"
    by (simp add: example_instances_def ec2_body_def outcome_of_def then_do_def s1 s2
        d1_def d2_def Let_def)
  have f: "is_new d1" "\<not> is_new d2" "is_unused d2" "resource_id d1 = ''i-new''"
    "resource_id d2 = ''i-idle''"
    by (simp_all add: d1_def d2_def new_instance_def idle_instance_def ResourceInfo_init_def)
  have "?E = (filter is_new (built (ec2_body example_library) example_instances),
      filter (\<lambda>r. is_unused r \<and> \<not> is_new r)
        (built (ec2_body example_library) example_instances))"
    using pl by blast
  then have e: "?E = ([d1], [d2])"
    using f by (simp add: b)
  define a1 where "a1 = \<lparr> AllocationId = Some ''eipalloc-1'', InstanceId = None,
      NetworkInterfaceId = None, PublicIp = Some ''3.3.3.3'', Domain = Some ''vpc'',
      eip_Tags = [] \<rparr>"
  define a2 where "a2 = \<lparr> AllocationId = Some ''eipalloc-2'', InstanceId = None,
      NetworkInterfaceId = None, PublicIp = Some ''4.4.4.4'', Domain = Some ''vpc'',
      eip_Tags = [] \<rparr>"
  define r1 where
    "r1 = eip_resource example_library example_cutoff ''us-east-1'' ''eipalloc-1'' a1 None"
  define r2 where
    "r2 = eip_resource example_library example_cutoff ''us-east-1'' ''eipalloc-2'' a2
       (Some 1704175200000000)"
  have eb: "eip_built example_library example_cutoff ''us-east-1'' example_addresses = [r1, r2]"
    by (simp add: eip_built_def example_addresses_def r1_def r2_def a1_def a2_def)
  have g: "\<not> is_new r1" "is_unused r1" "is_new r2" "resource_id r1 = ''eipalloc-1''"
    "resource_id r2 = ''eipalloc-2''"
    by (simp_all add: r1_def r2_def eip_resource_flags eip_resource_id eip_is_new_def
        eip_is_associated_def example_cutoff_def a1_def a2_def)
  have "?A = (filter is_new
        (eip_built example_library example_cutoff ''us-east-1'' example_addresses),
      filter (\<lambda>r. is_unused r \<and> \<not> is_new r)
        (eip_built example_library example_cutoff ''us-east-1'' example_addresses))"
    using pl by blast
  then have a: "?A = ([r2], [r1])"
    using g by (simp add: eb)
  have "classified ?E"
    unfolding get_all_ec2_instances_def using pl by blast
  moreover have "classified ?A"
    using pl by blast
  ultimately have "list_all classified [?E, ?A]"
    by simp
  then have "set (fst (run_collect [?E, ?A])) \<inter> set (snd (run_collect [?E, ?A])) = {}"
    using pl by blast
  then show ?thesis
    using f g by (simp add: e a)
qed

subsection \<open>Functions\<close>

text \<open>
  Claim C10. For a function whose \<^verbatim>\<open>LastModified\<close> text the library reads as the time
  \<open>last_modified\<close> and whose tags the provider returns, the loop builds a descriptor that is
  new exactly when \<open>last_modified\<close> is not before the cutoff, and whose created time is the
  text of \<open>last_modified\<close>. No creation time is read: a function created before the window
  and modified inside it is new, and a function never modified (last modification =
  creation) that is older than the window is not new.
\<close>

theorem lambda_is_new_by_last_modified:
  assumes "fromisoformat L (replace_char CHR ''Z'' ''+00:00'' (LastModified (fn it)))
             = Inr last_modified"
    and "list_tags it = Inr tr"
  shows "\<exists>d. lambda_body L cutoff_time reg it = Built d
           \<and> (is_new d \<longleftrightarrow> cutoff_time \<le> last_modified)
           \<and> created_time d = strftime_ist L last_modified
           \<and> (\<forall>created. created < cutoff_time \<and> cutoff_time \<le> last_modified \<longrightarrow> is_new d)
           \<and> (\<forall>created. created = last_modified \<and> created < cutoff_time \<longrightarrow> \<not> is_new d)
           \<and> fst (get_all_lambda_functions L cutoff_time reg [it])
               = (if cutoff_time \<le> last_modified then [d] else [])"
proof -
  from lambda_body_Built [OF assms, of cutoff_time reg] obtain d where
    d: "lambda_body L cutoff_time reg it = Built d"
    and n: "is_new d = (cutoff_time \<le> last_modified)"
    and c: "created_time d = strftime_ist L last_modified"
    by blast
  have "fst (get_all_lambda_functions L cutoff_time reg [it])
      = (if cutoff_time \<le> last_modified then [d] else [])"
    by (simp add: get_all_lambda_functions_def d place_resource_def n)
  then show ?thesis
    using d n c by auto
qed

theorem lambda_is_new_by_last_modified_witness:
  "(case lambda_body example_library example_cutoff ''us-east-1'' modified_function of
      Built d \<Rightarrow> is_new d | Raised e \<Rightarrow> False | Skipped \<Rightarrow> False)
   \<and> (case lambda_body example_library example_cutoff ''us-east-1'' idle_function of
      Built d \<Rightarrow> \<not> is_new d | Raised e \<Rightarrow> False | Skipped \<Rightarrow> False)"
proof -
  from lambda_is_new_by_last_modified [of example_library modified_function 1704175200000000
      "Some []" example_cutoff "''us-east-1''"]
  obtain d1 where
    "lambda_body example_library example_cutoff ''us-east-1'' modified_function = Built d1"
    and "is_new d1"
    by (auto simp: idle_function_fields example_fromisoformat example_cutoff_def)
  moreover
  from lambda_is_new_by_last_modified [of example_library idle_function 1685577600000000
      "Some []" example_cutoff "''us-east-1''"]
  obtain d2 where
    "lambda_body example_library example_cutoff ''us-east-1'' idle_function = Built d2"
    and "\<not> is_new d2"
    by (auto simp: idle_function_fields example_fromisoformat example_cutoff_def)
  ultimately show ?thesis by simp
qed

subsection \<open>Cost totals of the report\<close>

lemma sublist_single: "sublist [x] s \<longleftrightarrow> x \<in> set s"
  by (induction s) (auto simp: sublist_code)

lemma before_single: "before [c] s = takeWhile (\<lambda>x. x \<noteq> c) s"
  by (induction s) auto

lemma py_split_from_Nil: "py_split_from sep cur [] = [cur]"
  by (subst py_split_from.simps) simp

lemma py_split_from_match:
  "sep \<noteq> [] \<Longrightarrow> prefix sep (x # xs) \<Longrightarrow>
     py_split_from sep cur (x # xs) = cur # py_split_from sep [] (drop (length sep) (x # xs))"
  by (subst py_split_from.simps) simp

lemma py_split_from_step:
  "\<not> (sep \<noteq> [] \<and> prefix sep (x # xs)) \<Longrightarrow>
     py_split_from sep cur (x # xs) = py_split_from sep (cur @ [x]) xs"
  by (subst py_split_from.simps) auto

lemma py_split_from_hd:
  "sep \<noteq> [] \<Longrightarrow> \<exists>rest. py_split_from sep cur s = (cur @ before sep s) # rest"
proof (induction s arbitrary: cur)
  case Nil
  show ?case by (simp add: py_split_from_Nil)
next
  case (Cons x xs)
  show ?case
  proof (cases "prefix sep (x # xs)")
    case True
    then show ?thesis
      using Cons.prems by (simp add: py_split_from_match)
  next
    case False
    from Cons.IH [OF Cons.prems, of "cur @ [x]"] obtain rest where
      "py_split_from sep (cur @ [x]) xs = ((cur @ [x]) @ before sep xs) # rest" by blast
    then show ?thesis
      using False by (simp add: py_split_from_step)
  qed
qed

lemma py_split_from_single:
  "c \<in> set s \<Longrightarrow>
     py_split_from [c] cur s
       = (cur @ takeWhile (\<lambda>x. x \<noteq> c) s)
         # py_split_from [c] [] (tl (dropWhile (\<lambda>x. x \<noteq> c) s))"
proof (induction s arbitrary: cur)
  case Nil
  then show ?case by simp
next
  case (Cons x xs)
  show ?case
  proof (cases "x = c")
    case True
    then show ?thesis by (simp add: py_split_from_match)
  next
    case False
    with Cons.prems have "c \<in> set xs" by simp
    from Cons.IH [OF this, of "cur @ [x]"] show ?thesis
      using False by (simp add: py_split_from_step)
  qed
qed

lemma item_hd: "item (x # xs) 0 = Inr x"
  by (simp add: item_def)

lemma first_piece:
  assumes "sep \<noteq> []"
  shows "then_do (py_split sep s) (\<lambda>b. item b 0) = Inr (before sep s)"
proof -
  from py_split_from_hd [OF assms, of "[]" s] obtain rest where
    "py_split_from sep [] s = before sep s # rest" by auto
  then show ?thesis
    using assms by (simp add: py_split_def then_do_def item_hd)
qed

lemma second_piece:
  assumes "c \<in> set s"
  shows "then_do (py_split [c] s) (\<lambda>a. item a 1)
           = Inr (takeWhile (\<lambda>x. x \<noteq> c) (tl (dropWhile (\<lambda>x. x \<noteq> c) s)))"
proof -
  let ?rest = "tl (dropWhile (\<lambda>x. x \<noteq> c) s)"
  from py_split_from_hd [of "[c]" "[]" ?rest] obtain more where
    "py_split_from [c] [] ?rest = before [c] ?rest # more" by auto
  then show ?thesis
    using py_split_from_single [OF assms, of "[]"]
    by (simp add: py_split_def then_do_def item_def before_single)
qed

lemma then_do_Inr: "then_do (Inr x) f = f x" and then_do_Inl: "then_do (Inl e) f = Inl e"
  by (simp_all add: then_do_def)

lemma then_do_assoc: "then_do (then_do m f) g = then_do m (\<lambda>x. then_do (f x) g)"
  by (cases m) (simp_all add: then_do_def)

lemma cost_str_is_first_dollar_piece:
  assumes "CHR ''$'' \<in> set c"
  shows "cost_str c
     = Inr (takeWhile (\<lambda>x. x \<noteq> CHR '' '')
         (before ''/month''
           (takeWhile (\<lambda>x. x \<noteq> CHR ''$'') (tl (dropWhile (\<lambda>x. x \<noteq> CHR ''$'') c)))))"
proof -
  have "cost_str c =
     then_do (then_do (py_split ''$'' c) (\<lambda>a. item a 1)) (\<lambda>a1.
     then_do (then_do (py_split ''/month'' a1) (\<lambda>b. item b 0)) (\<lambda>b0.
     then_do (py_split '' '' b0) (\<lambda>d. item d 0)))"
    by (simp add: cost_str_def then_do_assoc)
  then show ?thesis
    using second_piece [OF assms] first_piece [of "'' ''"]
    by (simp add: first_piece then_do_Inr before_single)
qed

lemma costed_cost: "estimated_cost (costed t c) = c"
  by (simp add: costed_def ResourceInfo_init_def)

lemma raising_row_is_skipped:
  "add_monthly L tot r = Inl e \<Longrightarrow> sum_monthly L tot (r # rs) = sum_monthly L tot rs"
  by simp

lemma example_estimates:
  "estimate_ec2_cost example_library ''m5.large'' = ''$0.122/hr, $2.93/day, $88.00/month''"
  "estimate_ebs_cost example_library 100 ''gp2'' = ''$0.33/day, $10.00/month''"
  by (simp_all add: estimate_ec2_cost_def ec2_monthly_cost_def ec2_cost_text_def cost_map_def
      estimate_ebs_cost_def ebs_costs_def get_or_def example_library_def)

lemma example_rows:
  "add_monthly example_library tot (costed t ''$0.122/hr, $2.93/day, $88.00/month'')
     = Inl ValueError"
  "add_monthly example_library tot (costed t ''$0.33/day, $10.00/month'') = Inl ValueError"
  "add_monthly example_library tot (costed t ''Cost estimation unavailable'') = Inr tot"
  "add_monthly example_library tot (costed t ''$18/month + $0.008/GB data'') = Inr (tot + 18)"
  "add_monthly example_library tot (costed t ''$3.60/month'') = Inr (tot + 3.6)"
  "add_monthly example_library tot (costed t ''$170.00/month (instance: $150, storage: ~$20)'')
     = Inr (tot + 170)"
  by (simp_all add: add_monthly_def costed_cost sublist_code cost_str_is_first_dollar_piece
      then_do_Inr remove_char_def example_library_def)

text \<open>
  Claim C9 asks that the totals of the report be the sums of the monthly amounts of the
  descriptors whose cost text is a dollar monthly amount, the other descriptors adding
  nothing and raising nothing. The second half holds: a descriptor on which the body of
  the loop raises is passed over (\<open>raising_row_is_skipped\<close>). The first half does not. The
  loop reads the amount behind the first \<^verbatim>\<open>$\<close> of the text
  (\<open>cost_str_is_first_dollar_piece\<close>), and in the cost texts that the estimators return for
  compute instances and volumes that is the hourly or the daily amount with its
  \<^verbatim>\<open>/hr,\<close> or \<^verbatim>\<open>/day,\<close>: \<^verbatim>\<open>float\<close> raises and the monthly amount of the text is never
  added. Below, an m5.large instance (88.00 per month) and a gp2 volume of 100 GB (10.00
  per month) stand with a bucket without estimate, a load balancer (18 per month) and a
  floating IP (3.60 per month) in the unused collection, and a database (170.00 per
  month) in the new one: the savings are 21.60 and not 119.60, the cost is 191.60 and
  not 289.60.
\<close>

theorem ec2_and_ebs_costs_are_dropped_from_totals:
  "estimate_ec2_cost example_library ''m5.large'' = ''$0.122/hr, $2.93/day, $88.00/month''
   \<and> estimate_ebs_cost example_library 100 ''gp2'' = ''$0.33/day, $10.00/month''
   \<and> float_of example_library ''88.00'' = Some 88
   \<and> float_of example_library ''10.00'' = Some 10
   \<and> add_monthly example_library 0
         (costed ''EC2 Instance'' ''$0.122/hr, $2.93/day, $88.00/month'') = Inl ValueError
   \<and> add_monthly example_library 0 (costed ''EBS Volume'' ''$0.33/day, $10.00/month'')
       = Inl ValueError
   \<and> sheets_total_monthly_savings example_library example_unused = 21.6
   \<and> slack_total_monthly_savings example_library example_unused = 21.6
   \<and> sheets_total_monthly_cost example_library example_new example_unused = 191.6
   \<and> sheets_total_monthly_savings example_library example_unused \<noteq> 88 + 10 + 18 + 3.6
   \<and> sheets_total_monthly_cost example_library example_new example_unused
       \<noteq> 170 + 88 + 10 + 18 + 3.6"
proof -
  have s: "sum_monthly example_library 0 example_unused = 21.6"
    by (simp add: example_unused_def example_rows)
  have c: "sum_monthly example_library 0 (example_new @ example_unused) = 191.6"
    by (simp add: example_unused_def example_new_def example_rows)
  have f: "float_of example_library ''88.00'' = Some 88"
    "float_of example_library ''10.00'' = Some 10"
    by (simp_all add: example_library_def)
  show ?thesis
    using s c f
    by (simp add: example_estimates example_rows sheets_total_monthly_savings_def
        slack_total_monthly_savings_def sheets_total_monthly_cost_def)
qed

end
